theory Spec2Isabelle
  imports Main "HOL-Library.Word"
begin

unbundle bit_operations_syntax

section \<open>Shared USB of the RP2040 core: cores/rp2040/RP2040USB.cpp\<close>

text \<open>
  The file composes the descriptors of a composite USB device from the endpoint roles
  that are linked in, and drives the TinyUSB stack from a periodic interrupt. The
  embedding below follows the file function by function. C names lose their leading
  underscores (\<open>__USBInstallKeyboard\<close> is \<open>USBInstallKeyboard\<close>); every file-scope
  or function-local \<open>static\<close> variable is a field of a state record that the function
  takes and returns.
\<close>

type_synonym byte = "8 word"

subsection \<open>Role flags\<close>

text \<open>
  RP2040USB.h declares one weak function per endpoint role. The code tests the address
  of the function (\<open>if (__USBInstallKeyboard)\<close>), which is non-null exactly when a
  library defining the role is linked in. A role assignment is therefore one boolean per
  weak symbol.
\<close>

record roles =
  USBInstallSerial :: bool
  USBInstallKeyboard :: bool
  USBInstallJoystick :: bool
  USBInstallMouse :: bool
  USBInstallConsumerControl :: bool
  USBInstallMassStorage :: bool
  USBInstallSecondHID_RawHID :: bool

subsection \<open>Report IDs and HID instance indices (lines 137--164)\<close>

definition USBGetKeyboardReportID :: "roles \<Rightarrow> int" where
  "USBGetKeyboardReportID R = 1"

definition USBGetMouseReportID :: "roles \<Rightarrow> int" where
  "USBGetMouseReportID R = 1 + (if USBInstallKeyboard R then 1 else 0)"

definition USBGetJoystickReportID :: "roles \<Rightarrow> int" where
  "USBGetJoystickReportID R =
     1 + (if USBInstallKeyboard R then 1 else 0) + (if USBInstallMouse R then 1 else 0)"

definition USBGetConsumerControlReportID :: "roles \<Rightarrow> int" where
  "USBGetConsumerControlReportID R =
     1 + (if USBInstallKeyboard R then 1 else 0) + (if USBInstallMouse R then 1 else 0)
       + (if USBInstallJoystick R then 1 else 0)"

definition USBGetHIDInstanceIndexForSharedHID :: "roles \<Rightarrow> int" where
  "USBGetHIDInstanceIndexForSharedHID R =
     (let hasSerial = USBInstallSerial R in if hasSerial then 0 else - 1)"

definition USBGetHIDInstanceIndexForRawHID :: "roles \<Rightarrow> int" where
  "USBGetHIDInstanceIndexForRawHID R =
     (let hasHID = (USBInstallKeyboard R \<or> USBInstallMouse R \<or> USBInstallJoystick R);
          hasHID2 = USBInstallSecondHID_RawHID R
      in if hasHID \<and> hasHID2 then 1 else if hasHID2 then 0 else - 1)"

subsection \<open>Device identity and the device descriptor (lines 46--135)\<close>

record USBDeviceAttributes =
  vendorId :: "16 word"
  productId :: "16 word"
  manufacturerName :: string
  productName :: string
  serialNumberText :: string

definition USBD_VID :: "16 word" where
  "USBD_VID = 0x2E8A"

text \<open>
  \<open>USBD_PID\<close> is \<open>SERIALUSB_PID\<close> when the build defines that macro and \<open>0x000a\<close>
  otherwise; the argument is the build's \<open>SERIALUSB_PID\<close>, if any.
\<close>

fun USBD_PID :: "16 word option \<Rightarrow> 16 word" where
  "USBD_PID (Some SERIALUSB_PID) = SERIALUSB_PID"
| "USBD_PID None = 0x000a"

definition usb_device_attrs_default :: "16 word option \<Rightarrow> USBDeviceAttributes" where
  "usb_device_attrs_default spid =
     \<lparr> vendorId = USBD_VID, productId = USBD_PID spid,
       manufacturerName = ''Raspberry Pi'', productName = ''PicoArduino'',
       serialNumberText = '''' \<rparr>"

text \<open>
  The fields of \<open>tusb_desc_device_t\<close> that the file fills from its own values. The
  remaining fields (\<open>bLength\<close>, \<open>bDescriptorType\<close>, the device class triple and
  \<open>bMaxPacketSize0\<close>) are constants of the TinyUSB headers and are left out.
\<close>

record tusb_desc_device_t =
  bcdUSB :: "16 word"
  idVendor :: "16 word"
  idProduct :: "16 word"
  bcdDevice :: "16 word"
  iManufacturer :: byte
  iProduct :: byte
  iSerialNumber :: byte
  bNumConfigurations :: byte

text \<open>
  \<open>usb_device_attrs\<close> is the object behind the reference \<open>__usb_device_attrs\<close>
  (assigning through the reference copies the caller's struct into it).
  \<open>usbd_desc_device\<close> is the function-local static of \<open>tud_descriptor_device_cb\<close>:
  its initialiser is not constant, so C++ evaluates it the first time control passes the
  declaration; \<open>None\<close> stands for "not yet initialised".
\<close>

record dev_state =
  usb_device_attrs :: USBDeviceAttributes
  usbd_desc_device :: "tusb_desc_device_t option"

definition dev_state_init :: "16 word option \<Rightarrow> dev_state" where
  "dev_state_init spid =
     \<lparr> usb_device_attrs = usb_device_attrs_default spid, usbd_desc_device = None \<rparr>"

definition USBSetDeviceAttributes :: "USBDeviceAttributes \<Rightarrow> dev_state \<Rightarrow> dev_state" where
  "USBSetDeviceAttributes attrs s = s\<lparr>usb_device_attrs := attrs\<rparr>"

definition USBD_STR_0 :: byte where "USBD_STR_0 = 0x00"
definition USBD_STR_MANUF :: byte where "USBD_STR_MANUF = 0x01"
definition USBD_STR_PRODUCT :: byte where "USBD_STR_PRODUCT = 0x02"
definition USBD_STR_SERIAL :: byte where "USBD_STR_SERIAL = 0x03"
definition USBD_STR_CDC :: byte where "USBD_STR_CDC = 0x04"

definition tud_descriptor_device_cb ::
  "16 word option \<Rightarrow> roles \<Rightarrow> dev_state \<Rightarrow> tusb_desc_device_t \<times> dev_state" where
  "tud_descriptor_device_cb spid R s =
     (let vendor = vendorId (usb_device_attrs s);
          product0 = productId (usb_device_attrs s);
          product =
            (if product0 = USBD_PID spid then
               (let p1 = (if USBInstallKeyboard R then product0 OR 0x8000 else product0);
                    p2 = (if USBInstallMouse R then p1 OR 0x4000 else p1);
                    p3 = (if USBInstallJoystick R then p2 OR 0x0100 else p2);
                    p4 = (if USBInstallMassStorage R then p3 XOR 0x2000 else p3);
                    p5 = (if USBInstallSecondHID_RawHID R then p4 XOR 0x1000 else p4)
                in p5)
             else product0);
          d = (case usbd_desc_device s of
                 Some d0 \<Rightarrow> d0
               | None \<Rightarrow>
                   \<lparr> bcdUSB = 0x0200, idVendor = vendor, idProduct = product,
                     bcdDevice = 0x0100, iManufacturer = USBD_STR_MANUF,
                     iProduct = USBD_STR_PRODUCT, iSerialNumber = USBD_STR_SERIAL,
                     bNumConfigurations = 1 \<rparr>)
      in (d, s\<lparr>usbd_desc_device := Some d\<rparr>))"

text \<open>
  The static descriptor is current when it is still uninitialised or was initialised
  from the attributes the state holds now; this is the case from start-up on when the
  attributes are set before the stack first asks for the descriptor.
\<close>

definition device_desc_current :: "16 word option \<Rightarrow> roles \<Rightarrow> dev_state \<Rightarrow> bool" where
  "device_desc_current spid R s =
     (case usbd_desc_device s of
        None \<Rightarrow> True
      | Some d \<Rightarrow> d = fst (tud_descriptor_device_cb spid R (s\<lparr>usbd_desc_device := None\<rparr>)))"

subsection \<open>Memory: malloc, bzero, memcpy\<close>

text \<open>
  A pointer to a heap buffer is \<open>None\<close> (the null pointer) or \<open>Some bytes\<close>. The
  allocator is a parameter: for a request of \<open>n\<close> bytes it either fails or hands out
  a block whose initial contents are arbitrary (the function gives the byte found at
  each offset). A write through the null pointer, or past the end of the block, is
  undefined behaviour in C; the model records it as a fault and goes on with the control
  flow of the source, so that the statements after the write remain visible.
\<close>

type_synonym allocator = "nat \<Rightarrow> (nat \<Rightarrow> byte) option"

definition malloc :: "allocator \<Rightarrow> nat \<Rightarrow> byte list option" where
  "malloc m n = map_option (\<lambda>g. map g [0..<n]) (m n)"

datatype fault = NullPointerWrite | OutOfBoundsWrite

type_synonym mem = "byte list option \<times> fault list"

definition memcpy :: "mem \<Rightarrow> nat \<Rightarrow> byte list \<Rightarrow> mem" where
  "memcpy M off src =
     (case fst M of
        None \<Rightarrow> (None, snd M @ [NullPointerWrite])
      | Some buf \<Rightarrow>
          if off + length src \<le> length buf
          then (Some (take off buf @ src @ drop (off + length src) buf), snd M)
          else (Some (take (length buf) (take off buf @ src)), snd M @ [OutOfBoundsWrite]))"

definition bzero :: "mem \<Rightarrow> nat \<Rightarrow> mem" where
  "bzero M n = memcpy M 0 (replicate n 0)"

text \<open>
  A local array \<open>uint8_t a[N] = { ... }\<close>: the initialisers, then zeros up to
  \<open>N\<close> elements. (C++ rejects more than \<open>N\<close> initialisers; \<open>take\<close> only makes the
  function total.)
\<close>

definition array_init :: "nat \<Rightarrow> byte list \<Rightarrow> byte list" where
  "array_init N xs = take N xs @ replicate (N - length xs) 0"

subsection \<open>The TinyUSB macros the file expands\<close>

text \<open>
  The descriptor macros and their length constants come from the TinyUSB headers, which
  are not part of this file; they are parameters of the model. Each descriptor macro is
  given as a function of the arguments that vary in this file (interface number,
  interface count, total length, report length); its remaining arguments are the
  constants written at the call site (string indices, endpoint addresses and sizes).

  A report-descriptor macro \<open>TUD_HID_REPORT_DESC_X(...)\<close> splices its variadic
  argument into a fixed list of initialisers: it is the pair of the initialisers before
  and after the splice. \<open>HID_REPORT_ID(x)\<close> expands to a fixed item prefix followed by
  the byte \<open>x\<close>.
\<close>

type_synonym report_macro = "byte list \<times> byte list"

definition expand :: "report_macro \<Rightarrow> byte list \<Rightarrow> byte list" where
  "expand macro args = fst macro @ args @ snd macro"

record tinyusb =
  TUD_CONFIG_DESC_LEN :: nat
  TUD_CDC_DESC_LEN :: nat
  TUD_HID_DESC_LEN :: nat
  TUD_MSC_DESC_LEN :: nat
  TUD_HID_INOUT_DESC_LEN :: nat
  TUD_CONFIG_DESCRIPTOR :: "byte \<Rightarrow> nat \<Rightarrow> byte list"
  TUD_CDC_DESCRIPTOR :: "byte \<Rightarrow> byte list"
  TUD_HID_DESCRIPTOR :: "byte \<Rightarrow> nat \<Rightarrow> byte list"
  TUD_MSC_DESCRIPTOR :: "byte \<Rightarrow> byte list"
  TUD_HID_INOUT_DESCRIPTOR :: "byte \<Rightarrow> nat \<Rightarrow> byte list"
  HID_REPORT_ID_prefix :: "byte list"
  TUD_HID_REPORT_DESC_KEYBOARD :: report_macro
  TUD_HID_REPORT_DESC_MOUSE :: report_macro
  TUD_HID_REPORT_DESC_GAMEPAD :: report_macro
  TUD_HID_REPORT_DESC_CONSUMER :: report_macro
  TUD_HID_REPORT_DESC_GENERIC_INOUT :: "nat \<Rightarrow> byte list"

definition HID_REPORT_ID :: "tinyusb \<Rightarrow> byte \<Rightarrow> byte list" where
  "HID_REPORT_ID T x = HID_REPORT_ID_prefix T @ [x]"

subsection \<open>HID report descriptors (lines 166--291)\<close>

text \<open>
  The globals of the descriptor builders. The lengths are C \<open>int\<close>s that only ever
  hold 0 or a sum of \<open>sizeof\<close> values, hence naturals here. \<open>faults\<close> is not a
  variable of the program: it logs the undefined writes (see above).
\<close>

record desc_state =
  hid_report_len :: nat
  hid_report :: "byte list option"
  hid2_report_len :: nat
  hid2_report :: "byte list option"
  usbd_desc_cfg :: "byte list option"
  faults :: "fault list"

definition desc_state_init :: desc_state where
  "desc_state_init =
     \<lparr> hid_report_len = 0, hid_report = None, hid2_report_len = 0, hid2_report = None,
       usbd_desc_cfg = None, faults = [] \<rparr>"

definition GetDescHIDReport :: "desc_state \<Rightarrow> byte list option \<times> nat" where
  "GetDescHIDReport s = (hid_report s, hid_report_len s)"

definition GetDescHID2Report :: "desc_state \<Rightarrow> byte list option \<times> nat" where
  "GetDescHID2Report s = (hid2_report s, hid2_report_len s)"

definition Report_Type_Keyboard :: int where "Report_Type_Keyboard = 0"
definition Report_Type_Mouse :: int where "Report_Type_Mouse = 1"
definition Report_Type_Joystick :: int where "Report_Type_Joystick = 2"
definition Report_Type_ConsumerControl :: int where "Report_Type_ConsumerControl = 3"
definition Report_Type_Count :: nat where "Report_Type_Count = 4"

text \<open>
  Lines 194--210: the enabled report types, in the order of the four tests, and their
  count. \<open>report_types\<close> is a static array; every entry read later in the call lies below
  \<open>count\<close> and was written in the same call, so the array starts from zeros here.
\<close>

definition enabled_report_types :: "roles \<Rightarrow> int list \<times> nat" where
  "enabled_report_types R =
     (let report_types = replicate Report_Type_Count (0::int);
          pos = (0::nat);
          (report_types, pos) =
            (if USBInstallKeyboard R
             then (report_types[pos := Report_Type_Keyboard], pos + 1)
             else (report_types, pos));
          (report_types, pos) =
            (if USBInstallMouse R
             then (report_types[pos := Report_Type_Mouse], pos + 1)
             else (report_types, pos));
          (report_types, pos) =
            (if USBInstallJoystick R
             then (report_types[pos := Report_Type_Joystick], pos + 1)
             else (report_types, pos));
          (report_types, pos) =
            (if USBInstallConsumerControl R
             then (report_types[pos := Report_Type_ConsumerControl], pos + 1)
             else (report_types, pos))
      in (report_types, pos))"

text \<open>Lines 226--237: the first loop adds up the sizes of the templates at report ID 1.\<close>

function size_loop :: "tinyusb \<Rightarrow> int list \<Rightarrow> nat \<Rightarrow> nat \<Rightarrow> nat \<Rightarrow> nat" where
  "size_loop T report_types count i sz =
     (if i < count then
        (let report_type = report_types ! i;
             sz =
               (if report_type = Report_Type_Keyboard then
                  sz + length (expand (TUD_HID_REPORT_DESC_KEYBOARD T) (HID_REPORT_ID T 1))
                else if report_type = Report_Type_Mouse then
                  sz + length (expand (TUD_HID_REPORT_DESC_MOUSE T) (HID_REPORT_ID T 1))
                else if report_type = Report_Type_Joystick then
                  sz + length (expand (TUD_HID_REPORT_DESC_GAMEPAD T) (HID_REPORT_ID T 1))
                else if report_type = Report_Type_ConsumerControl then
                  sz + length (expand (TUD_HID_REPORT_DESC_CONSUMER T) (HID_REPORT_ID T 1))
                else sz)
         in size_loop T report_types count (i + 1) sz)
      else sz)"
  by pat_completeness auto
termination
  by (relation "measure (\<lambda>(T, report_types, count, i, sz). count - i)") auto

text \<open>
  Lines 245--265: the second loop copies each template, stamped with report ID
  \<open>i + 1\<close>, to the running offset. Its last branch tests the enum constant
  \<open>Report_Type_ConsumerControl\<close> itself (the value 3), not \<open>report_type\<close>.
\<close>

function copy_loop ::
  "tinyusb \<Rightarrow> int list \<Rightarrow> nat \<Rightarrow> nat \<Rightarrow> mem \<Rightarrow> nat \<Rightarrow> mem \<times> nat" where
  "copy_loop T report_types count i M offset =
     (if i < count then
        (let report_type = report_types ! i;
             report_id = (of_nat (i + 1) :: byte)
         in if report_type = Report_Type_Keyboard then
              (let desc = expand (TUD_HID_REPORT_DESC_KEYBOARD T) (HID_REPORT_ID T report_id)
               in copy_loop T report_types count (i + 1)
                    (memcpy M offset desc) (offset + length desc))
            else if report_type = Report_Type_Mouse then
              (let desc = expand (TUD_HID_REPORT_DESC_MOUSE T) (HID_REPORT_ID T report_id)
               in copy_loop T report_types count (i + 1)
                    (memcpy M offset desc) (offset + length desc))
            else if report_type = Report_Type_Joystick then
              (let desc = expand (TUD_HID_REPORT_DESC_GAMEPAD T) (HID_REPORT_ID T report_id)
               in copy_loop T report_types count (i + 1)
                    (memcpy M offset desc) (offset + length desc))
            else if Report_Type_ConsumerControl \<noteq> 0 then
              (let desc = expand (TUD_HID_REPORT_DESC_CONSUMER T) (HID_REPORT_ID T report_id)
               in copy_loop T report_types count (i + 1)
                    (memcpy M offset desc) (offset + length desc))
            else copy_loop T report_types count (i + 1) M offset)
      else (M, offset))"
  by pat_completeness auto
termination
  by (relation "measure (\<lambda>(T, report_types, count, i, M, offset). count - i)") auto

definition SetupDescHIDReport :: "tinyusb \<Rightarrow> roles \<Rightarrow> allocator \<Rightarrow> desc_state \<Rightarrow> desc_state" where
  "SetupDescHIDReport T R m s =
     (let (report_types, pos) = enabled_report_types R;
          count = pos
      in if count = 0 then s\<lparr>hid_report := None, hid_report_len := 0\<rparr>
         else
           (let sz = size_loop T report_types count 0 0;
                s = s\<lparr>hid_report := malloc m sz\<rparr>
            in if hid_report s \<noteq> None then
                 (let s = s\<lparr>hid_report_len := sz\<rparr>;
                      (M, offset) =
                        copy_loop T report_types count 0 (hid_report s, faults s) 0
                  in s\<lparr>hid_report := fst M, faults := snd M\<rparr>)
               else s))"

definition SetupDescHID2Report :: "tinyusb \<Rightarrow> roles \<Rightarrow> allocator \<Rightarrow> desc_state \<Rightarrow> desc_state" where
  "SetupDescHID2Report T R m s =
     (if USBInstallSecondHID_RawHID R then
        (let desc_hid_report_genericHID = TUD_HID_REPORT_DESC_GENERIC_INOUT T 64;
             sz = length desc_hid_report_genericHID;
             s = s\<lparr>hid2_report := malloc m sz\<rparr>;
             M = memcpy (hid2_report s, faults s) 0 desc_hid_report_genericHID;
             s = s\<lparr>hid2_report := fst M, faults := snd M\<rparr>
         in s\<lparr>hid2_report_len := sz\<rparr>)
      else s\<lparr>hid2_report := None, hid2_report_len := 0\<rparr>)"

definition tud_hid_descriptor_report_cb :: "byte \<Rightarrow> desc_state \<Rightarrow> byte list option" where
  "tud_hid_descriptor_report_cb instance s =
     (if instance = 0 then fst (GetDescHIDReport s) else fst (GetDescHID2Report s))"

subsection \<open>The configuration descriptor (lines 293--385)\<close>

definition tud_descriptor_configuration_cb :: "byte \<Rightarrow> desc_state \<Rightarrow> byte list option" where
  "tud_descriptor_configuration_cb index s = usbd_desc_cfg s"

definition SetupUSBDescriptor :: "tinyusb \<Rightarrow> roles \<Rightarrow> allocator \<Rightarrow> desc_state \<Rightarrow> desc_state" where
  "SetupUSBDescriptor T R m s =
     (if usbd_desc_cfg s = None then
        (let hasSerial = USBInstallSerial R;
             hasHID = (USBInstallKeyboard R \<or> USBInstallMouse R \<or> USBInstallJoystick R);
             hasMSD = USBInstallMassStorage R;
             hasHID2 = USBInstallSecondHID_RawHID R;
             itf_cdc = (- 1 :: byte);
             itf_hid = (- 1 :: byte);
             itf_msd = (- 1 :: byte);
             itf_hid2 = (- 1 :: byte);
             itf_pos = (0 :: byte);
             (itf_cdc, itf_pos) =
               (if hasSerial then (itf_pos, itf_pos + 2) else (itf_cdc, itf_pos));
             (itf_hid, itf_pos) =
               (if hasHID then (itf_pos, itf_pos + 1) else (itf_hid, itf_pos));
             (itf_msd, itf_pos) =
               (if hasMSD then (itf_pos, itf_pos + 1) else (itf_msd, itf_pos));
             (itf_hid2, itf_pos) =
               (if hasHID2 then (itf_pos, itf_pos + 1) else (itf_hid2, itf_pos));
             interface_count = itf_pos;
             cdc_desc = array_init (TUD_CDC_DESC_LEN T) (TUD_CDC_DESCRIPTOR T itf_cdc);
             hid_report_len = snd (GetDescHIDReport s);
             hid_desc =
               array_init (TUD_HID_DESC_LEN T) (TUD_HID_DESCRIPTOR T itf_hid hid_report_len);
             msd_desc = array_init (TUD_MSC_DESC_LEN T) (TUD_MSC_DESCRIPTOR T itf_msd);
             hid2_report_len = snd (GetDescHID2Report s);
             hid2_desc =
               array_init (TUD_HID_INOUT_DESC_LEN T)
                 (TUD_HID_INOUT_DESCRIPTOR T itf_hid2 hid2_report_len);
             usbd_desc_len =
               TUD_CONFIG_DESC_LEN T + (if hasSerial then length cdc_desc else 0)
               + (if hasHID then length hid_desc else 0)
               + (if hasMSD then length msd_desc else 0)
               + (if hasHID2 then length hid2_desc else 0);
             tud_cfg_desc =
               array_init (TUD_CONFIG_DESC_LEN T)
                 (TUD_CONFIG_DESCRIPTOR T interface_count usbd_desc_len);
             s = s\<lparr>usbd_desc_cfg := malloc m usbd_desc_len\<rparr>
         in if usbd_desc_cfg s \<noteq> None then
              (let M = bzero (usbd_desc_cfg s, faults s) usbd_desc_len;
                   ptr = (0 :: nat);
                   M = memcpy M ptr tud_cfg_desc;
                   ptr = ptr + length tud_cfg_desc;
                   (M, ptr) =
                     (if hasSerial
                      then (memcpy M ptr cdc_desc, ptr + length cdc_desc) else (M, ptr));
                   (M, ptr) =
                     (if hasHID
                      then (memcpy M ptr hid_desc, ptr + length hid_desc) else (M, ptr));
                   (M, ptr) =
                     (if hasMSD
                      then (memcpy M ptr msd_desc, ptr + length msd_desc) else (M, ptr));
                   (M, ptr) =
                     (if hasHID2
                      then (memcpy M ptr hid2_desc, ptr + length hid2_desc) else (M, ptr))
               in s\<lparr>usbd_desc_cfg := fst M, faults := snd M\<rparr>)
            else s)
      else s)"

subsection \<open>String descriptors (lines 387--426)\<close>

text \<open>
  What the function takes from outside this file: the descriptor type constant
  \<open>TUSB_DESC_STRING\<close> of TinyUSB, the size of the board ID of the Pico SDK, the C
  library's \<open>snprintf\<close> (called with a buffer size and the serial text as format, and no
  further argument; the result is the string left in the buffer) and the SDK's
  \<open>pico_get_unique_board_id_string\<close> (the string written for a buffer size).
\<close>

record platform =
  TUSB_DESC_STRING :: "16 word"
  PICO_UNIQUE_BOARD_ID_SIZE_BYTES :: nat
  snprintf :: "nat \<Rightarrow> string \<Rightarrow> string"
  pico_get_unique_board_id_string :: "nat \<Rightarrow> string"

definition DESC_STR_MAX :: nat where
  "DESC_STR_MAX = 20"

text \<open>
  The statics of \<open>tud_descriptor_string_cb\<close>. \<open>desc_str\<close> is an array of
  \<open>DESC_STR_MAX\<close> 16-bit units, given by its element at each index. \<open>idString\<close> is
  a character buffer, given by the C string it holds. \<open>usbd_desc_str\<close> is the table of
  string pointers; its initialiser reads the attributes, so it is evaluated on the first
  call only: the state keeps the manufacturer and product strings captured then
  (\<open>None\<close> before the first call). The other three entries are the empty literal, the
  buffer \<open>idString\<close> and the literal "Board CDC".
\<close>

record str_state =
  desc_str :: "nat \<Rightarrow> 16 word"
  idString :: string
  usbd_desc_str :: "(string \<times> string) option"

definition str_state_init :: str_state where
  "str_state_init = \<lparr> desc_str = (\<lambda>i. 0), idString = [], usbd_desc_str = None \<rparr>"

text \<open>
  A C string is the characters before its terminating NUL: \<open>c_at str i\<close> is
  \<open>str[i]\<close>, with the terminator at index \<open>length str\<close>. Plain \<open>char\<close> is unsigned
  on the ARM target, so a character converts to \<open>uint16_t\<close> by its code.
\<close>

definition c_at :: "string \<Rightarrow> nat \<Rightarrow> char" where
  "c_at str i = (if i < length str then str ! i else CHR 0x00)"

definition usbd_desc_str_entry :: "string \<times> string \<Rightarrow> string \<Rightarrow> nat \<Rightarrow> string" where
  "usbd_desc_str_entry table idStr i =
     (if i = unat USBD_STR_0 then []
      else if i = unat USBD_STR_MANUF then fst table
      else if i = unat USBD_STR_PRODUCT then snd table
      else if i = unat USBD_STR_SERIAL then idStr
      else ''Board CDC'')"

definition usbd_desc_str_count :: nat where
  "usbd_desc_str_count = 5"

text \<open>Lines 417--419: the copy loop, on the counter \<open>len\<close> and the array.\<close>

function str_loop :: "string \<Rightarrow> nat \<Rightarrow> (nat \<Rightarrow> 16 word) \<Rightarrow> nat \<times> (nat \<Rightarrow> 16 word)" where
  "str_loop str len d =
     (if len < DESC_STR_MAX - 1 \<and> c_at str len \<noteq> CHR 0x00
      then str_loop str (len + 1) (d(1 + len := of_char (c_at str len)))
      else (len, d))"
  by pat_completeness auto
termination
  by (relation "measure (\<lambda>(str, len, d). DESC_STR_MAX - 1 - len)") auto

text \<open>
  The result is the returned pointer: \<open>None\<close> for \<open>nullptr\<close>, otherwise the array
  \<open>desc_str\<close> as the call leaves it. The header unit is computed in \<open>int\<close> in C and
  stored into 16 bits; shift and OR commute with that truncation.
\<close>

definition tud_descriptor_string_cb ::
  "platform \<Rightarrow> USBDeviceAttributes \<Rightarrow> byte \<Rightarrow> 16 word \<Rightarrow> str_state
     \<Rightarrow> (nat \<Rightarrow> 16 word) option \<times> str_state" where
  "tud_descriptor_string_cb P attrs index langid s =
     (let s = s\<lparr>idString :=
                snprintf P (PICO_UNIQUE_BOARD_ID_SIZE_BYTES P * 2 + 1) (serialNumberText attrs)\<rparr>;
          table = (case usbd_desc_str s of
                     Some t \<Rightarrow> t
                   | None \<Rightarrow> (manufacturerName attrs, productName attrs));
          s = s\<lparr>usbd_desc_str := Some table\<rparr>;
          s = (if c_at (idString s) 0 = CHR 0x00
               then s\<lparr>idString :=
                      pico_get_unique_board_id_string P
                        (PICO_UNIQUE_BOARD_ID_SIZE_BYTES P * 2 + 1)\<rparr>
               else s)
      in if index = 0 then
           (let s = s\<lparr>desc_str := (desc_str s)(1 := 0x0409)\<rparr>;
                len = (1 :: nat);
                s = s\<lparr>desc_str := (desc_str s)
                       (0 := push_bit 8 (TUSB_DESC_STRING P) OR of_nat (2 * len + 2))\<rparr>
            in (Some (desc_str s), s))
         else if unat index \<ge> usbd_desc_str_count then (None, s)
         else
           (let str = usbd_desc_str_entry table (idString s) (unat index);
                (len, d) = str_loop str 0 (desc_str s);
                s = s\<lparr>desc_str := d\<rparr>;
                s = s\<lparr>desc_str := (desc_str s)
                       (0 := push_bit 8 (TUSB_DESC_STRING P) OR of_nat (2 * len + 2))\<rparr>
            in (Some (desc_str s), s)))"

subsection \<open>The periodic interrupt (lines 428--436)\<close>

text \<open>
  The execution contexts that may hold \<open>__usb_mutex\<close>: the interrupt handler, and
  application code driving the stack inline.
\<close>

datatype exec_context = Interrupt | Inline

text \<open>
  \<open>usb_mutex\<close> is the owner of \<open>__usb_mutex\<close>, if any. \<open>stack\<close> is the state of the
  TinyUSB stack, of which nothing is known. \<open>task_log\<close> is not a variable of the
  program: it records, for every entry into \<open>tud_task\<close>, who held the mutex then.
\<close>

record 'stk usb_ctl =
  usb_mutex :: "exec_context option"
  stack :: 'stk
  task_log :: "exec_context option list"

text \<open>
  Modelled from the spec: \<open>mutex_try_enter\<close> and \<open>mutex_exit\<close> of the Pico SDK, which
  are not in this repository. Acquiring is attempted without blocking: a free mutex is
  taken and the call reports success; a mutex that is already held is left as it is and
  the call reports failure. Releasing frees the mutex.
\<close>

definition mutex_try_enter :: "exec_context \<Rightarrow> 'stk usb_ctl \<Rightarrow> bool \<times> 'stk usb_ctl" where
  "mutex_try_enter who s =
     (if usb_mutex s = None then (True, s\<lparr>usb_mutex := Some who\<rparr>) else (False, s))"

definition mutex_exit :: "'stk usb_ctl \<Rightarrow> 'stk usb_ctl" where
  "mutex_exit s = s\<lparr>usb_mutex := None\<rparr>"

text \<open>A call of the stack's entry point \<open>tud_task\<close>, whose effect is a parameter.\<close>

definition call_tud_task :: "('stk \<Rightarrow> 'stk) \<Rightarrow> 'stk usb_ctl \<Rightarrow> 'stk usb_ctl" where
  "call_tud_task tud_task s =
     s\<lparr>stack := tud_task (stack s), task_log := task_log s @ [usb_mutex s]\<rparr>"

definition usb_irq :: "('stk \<Rightarrow> 'stk) \<Rightarrow> 'stk usb_ctl \<Rightarrow> 'stk usb_ctl" where
  "usb_irq tud_task s =
     (let (entered, s) = mutex_try_enter Interrupt s
      in if entered then mutex_exit (call_tud_task tud_task s) else s)"

subsection \<open>Set-report callbacks (lines 466--498)\<close>

text \<open>
  A handler is a function pointer, \<open>None\<close> when null. The array of two pointers is
  given by its element at each index and starts zeroed, as a static does. The counter
  is a C \<open>int\<close> that starts at 0 and is only ever incremented below 2, hence a natural.
\<close>

record 'fn router_state =
  hid_set_report_callback_functions :: "nat \<Rightarrow> 'fn option"
  hid_set_report_callback_functions_count :: nat

definition router_state_init :: "'fn router_state" where
  "router_state_init =
     \<lparr> hid_set_report_callback_functions = (\<lambda>i. None),
       hid_set_report_callback_functions_count = 0 \<rparr>"

definition USBSubscribeHIDSetReportCallback ::
  "'fn option \<Rightarrow> 'fn router_state \<Rightarrow> 'fn router_state" where
  "USBSubscribeHIDSetReportCallback fn s =
     (if hid_set_report_callback_functions_count s < 2 then
        s\<lparr>hid_set_report_callback_functions :=
             (hid_set_report_callback_functions s)
               (hid_set_report_callback_functions_count s := fn),
          hid_set_report_callback_functions_count :=
             hid_set_report_callback_functions_count s + 1\<rparr>
      else s)"

text \<open>
  The arguments of a set-report event: instance, report id, report type, buffer pointer
  and size. The handlers are code outside this file; a call is recorded as the pair of
  the handler and the arguments it receives, in the order of the calls.
\<close>

type_synonym 'p set_report_args = "byte \<times> byte \<times> byte \<times> 'p \<times> 16 word"

function set_report_loop ::
  "'fn router_state \<Rightarrow> 'p set_report_args \<Rightarrow> nat \<Rightarrow> ('fn \<times> 'p set_report_args) list
     \<Rightarrow> ('fn \<times> 'p set_report_args) list" where
  "set_report_loop s args i calls =
     (if i < 2 then
        (case hid_set_report_callback_functions s i of
           Some fn \<Rightarrow> set_report_loop s args (i + 1) (calls @ [(fn, args)])
         | None \<Rightarrow> set_report_loop s args (i + 1) calls)
      else calls)"
  by pat_completeness auto
termination
  by (relation "measure (\<lambda>(s, args, i, calls). 2 - i)") auto

definition tud_hid_set_report_cb ::
  "byte \<Rightarrow> byte \<Rightarrow> byte \<Rightarrow> 'p \<Rightarrow> 16 word \<Rightarrow> 'fn router_state
     \<Rightarrow> ('fn \<times> 'p set_report_args) list" where
  "tud_hid_set_report_cb instance report_id report_type buffer bufsize s =
     set_report_loop s (instance, report_id, report_type, buffer, bufsize) 0 []"

subsection \<open>Concrete inputs\<close>

text \<open>
  A sample instance of the TinyUSB parameters, for evaluating the builders. The
  descriptor macros follow the USB 2.0 layouts the TinyUSB macros emit, with the constant
  arguments of this file filled in (HID endpoint size 64, maximum power 250 mA); the
  keyboard, mouse and gamepad report templates are cut down to their opening and closing
  items.
\<close>

definition U16_TO_U8S_LE :: "nat \<Rightarrow> byte list" where
  "U16_TO_U8S_LE n = [of_nat (n mod 256), of_nat (n div 256 mod 256)]"

definition tusb_sample :: tinyusb where
  "tusb_sample =
     \<lparr> TUD_CONFIG_DESC_LEN = 9, TUD_CDC_DESC_LEN = 66, TUD_HID_DESC_LEN = 25,
       TUD_MSC_DESC_LEN = 23, TUD_HID_INOUT_DESC_LEN = 32,
       TUD_CONFIG_DESCRIPTOR = (\<lambda>itfcount total_len.
         [9, 2] @ U16_TO_U8S_LE total_len @ [itfcount, 1, 0, 0xA0, 125]),
       TUD_CDC_DESCRIPTOR = (\<lambda>itf.
         [8, 0x0B, itf, 2, 2, 2, 0, 0,
          9, 4, itf, 0, 1, 2, 2, 0, 4,
          5, 0x24, 0, 0x20, 0x01,
          5, 0x24, 1, 0, itf + 1,
          4, 0x24, 2, 2,
          5, 0x24, 6, itf, itf + 1,
          7, 5, 0x81, 3, 8, 0, 16,
          9, 4, itf + 1, 0, 2, 0x0A, 0, 0, 0,
          7, 5, 0x02, 2, 64, 0, 0,
          7, 5, 0x82, 2, 64, 0, 0]),
       TUD_HID_DESCRIPTOR = (\<lambda>itf report_len.
         [9, 4, itf, 0, 1, 3, 0, 0, 0,
          9, 0x21, 0x11, 0x01, 0, 1, 0x22] @ U16_TO_U8S_LE report_len @
         [7, 5, 0x83, 3, 64, 0, 10]),
       TUD_MSC_DESCRIPTOR = (\<lambda>itf.
         [9, 4, itf, 0, 2, 8, 6, 0x50, 0,
          7, 5, 0x03, 2, 64, 0, 0,
          7, 5, 0x84, 2, 64, 0, 0]),
       TUD_HID_INOUT_DESCRIPTOR = (\<lambda>itf report_len.
         [9, 4, itf, 0, 2, 3, 0, 0, 0,
          9, 0x21, 0x11, 0x01, 0, 1, 0x22] @ U16_TO_U8S_LE report_len @
         [7, 5, 0x05, 3, 64, 0, 10,
          7, 5, 0x85, 3, 64, 0, 10]),
       HID_REPORT_ID_prefix = [0x85],
       TUD_HID_REPORT_DESC_KEYBOARD = ([0x05, 0x01, 0x09, 0x06, 0xA1, 0x01], [0xC0]),
       TUD_HID_REPORT_DESC_MOUSE = ([0x05, 0x01, 0x09, 0x02, 0xA1, 0x01], [0xC0]),
       TUD_HID_REPORT_DESC_GAMEPAD = ([0x05, 0x01, 0x09, 0x05, 0xA1, 0x01], [0xC0]),
       TUD_HID_REPORT_DESC_CONSUMER =
         ([0x05, 0x0C, 0x09, 0x01, 0xA1, 0x01],
          [0x15, 0x00, 0x26, 0xFF, 0x03, 0x19, 0x00, 0x2A, 0xFF, 0x03,
           0x95, 0x01, 0x75, 0x10, 0x81, 0x00, 0xC0]),
       TUD_HID_REPORT_DESC_GENERIC_INOUT = (\<lambda>report_size.
         [0x06, 0x00, 0xFF, 0x09, 0x01, 0xA1, 0x01,
          0x09, 0x02, 0x15, 0x00, 0x26, 0xFF, 0x00, 0x75, 0x08, 0x95, of_nat report_size,
          0x81, 0x02,
          0x09, 0x03, 0x15, 0x00, 0x26, 0xFF, 0x00, 0x75, 0x08, 0x95, of_nat report_size,
          0x91, 0x02, 0xC0]) \<rparr>"

text \<open>
  A sample platform: \<open>snprintf\<close> as it acts on a text without conversion
  specifications, and a fixed board ID.
\<close>

definition platform_sample :: platform where
  "platform_sample =
     \<lparr> TUSB_DESC_STRING = 0x03, PICO_UNIQUE_BOARD_ID_SIZE_BYTES = 8,
       snprintf = (\<lambda>n fmt. take (n - 1) fmt),
       pico_get_unique_board_id_string = (\<lambda>n. take (n - 1) ''E6605838837B4A32'') \<rparr>"

text \<open>An allocator that always succeeds with stale bytes 0xAA, and one that always fails.\<close>

definition alloc_ok :: allocator where
  "alloc_ok n = Some (\<lambda>i. 0xAA)"

definition alloc_fail :: allocator where
  "alloc_fail n = None"

text \<open>The role assignment with no role linked in, as a base for concrete inputs.\<close>

definition no_roles :: roles where
  "no_roles =
     \<lparr> USBInstallSerial = False, USBInstallKeyboard = False, USBInstallJoystick = False,
       USBInstallMouse = False, USBInstallConsumerControl = False,
       USBInstallMassStorage = False, USBInstallSecondHID_RawHID = False \<rparr>"

subsection \<open>The builders' results, as the specification words them\<close>

text \<open>
  The report templates of the enabled simple-HID roles in the order keyboard, mouse,
  joystick, consumer control; their concatenation with the \<open>i\<close>-th template stamped
  with report ID \<open>i\<close>, for \<open>i\<close> from 1 to the number of templates; and the sum of their
  sizes.
\<close>

definition simple_hid_templates :: "tinyusb \<Rightarrow> roles \<Rightarrow> report_macro list" where
  "simple_hid_templates T R =
     (if USBInstallKeyboard R then [TUD_HID_REPORT_DESC_KEYBOARD T] else [])
     @ (if USBInstallMouse R then [TUD_HID_REPORT_DESC_MOUSE T] else [])
     @ (if USBInstallJoystick R then [TUD_HID_REPORT_DESC_GAMEPAD T] else [])
     @ (if USBInstallConsumerControl R then [TUD_HID_REPORT_DESC_CONSUMER T] else [])"

definition stamped_templates :: "tinyusb \<Rightarrow> report_macro list \<Rightarrow> byte list" where
  "stamped_templates T ts =
     concat (map (\<lambda>(t, i). expand t (HID_REPORT_ID T (of_nat i)))
               (zip ts [1..<Suc (length ts)]))"

definition template_sizes :: "tinyusb \<Rightarrow> report_macro list \<Rightarrow> nat" where
  "template_sizes T ts = sum_list (map (\<lambda>t. length (expand t (HID_REPORT_ID T 1))) ts)"

text \<open>
  The interface groups of the configuration descriptor in their order of precedence:
  serial, HID, mass storage, raw-HID-2. The HID group carries the simple-HID roles
  keyboard, mouse, joystick and consumer control, and is enabled when one of them is.
  \<open>itf_widths\<close> gives the number of interfaces each group takes (0 when absent),
  \<open>itf_first R k\<close> the interfaces taken by the groups before group \<open>k\<close>, hence the
  first interface number of group \<open>k\<close>, and \<open>itf_numbers\<close> all interface numbers in
  the order of the groups.
\<close>

definition hid_group_enabled :: "roles \<Rightarrow> bool" where
  "hid_group_enabled R =
     (USBInstallKeyboard R \<or> USBInstallMouse R \<or> USBInstallJoystick R
      \<or> USBInstallConsumerControl R)"

definition itf_widths :: "roles \<Rightarrow> nat list" where
  "itf_widths R =
     [if USBInstallSerial R then 2 else 0, if hid_group_enabled R then 1 else 0,
      if USBInstallMassStorage R then 1 else 0, if USBInstallSecondHID_RawHID R then 1 else 0]"

definition itf_first :: "roles \<Rightarrow> nat \<Rightarrow> nat" where
  "itf_first R k = sum_list (take k (itf_widths R))"

definition itf_numbers :: "roles \<Rightarrow> nat list" where
  "itf_numbers R =
     concat (map (\<lambda>k. [itf_first R k ..< itf_first R k + itf_widths R ! k]) [0, 1, 2, 3])"

definition cfg_total_len :: "tinyusb \<Rightarrow> roles \<Rightarrow> nat" where
  "cfg_total_len T R =
     TUD_CONFIG_DESC_LEN T
     + (if USBInstallSerial R then TUD_CDC_DESC_LEN T else 0)
     + (if hid_group_enabled R then TUD_HID_DESC_LEN T else 0)
     + (if USBInstallMassStorage R then TUD_MSC_DESC_LEN T else 0)
     + (if USBInstallSecondHID_RawHID R then TUD_HID_INOUT_DESC_LEN T else 0)"

text \<open>
  The config header followed by the sub-descriptor of each present group, each built
  with the group's first interface number, back to back.
\<close>

definition cfg_expected :: "tinyusb \<Rightarrow> roles \<Rightarrow> desc_state \<Rightarrow> byte list" where
  "cfg_expected T R s =
     array_init (TUD_CONFIG_DESC_LEN T)
       (TUD_CONFIG_DESCRIPTOR T (of_nat (itf_first R 4)) (cfg_total_len T R))
     @ (if USBInstallSerial R
        then array_init (TUD_CDC_DESC_LEN T) (TUD_CDC_DESCRIPTOR T (of_nat (itf_first R 0)))
        else [])
     @ (if hid_group_enabled R
        then array_init (TUD_HID_DESC_LEN T)
               (TUD_HID_DESCRIPTOR T (of_nat (itf_first R 1)) (hid_report_len s))
        else [])
     @ (if USBInstallMassStorage R
        then array_init (TUD_MSC_DESC_LEN T) (TUD_MSC_DESCRIPTOR T (of_nat (itf_first R 2)))
        else [])
     @ (if USBInstallSecondHID_RawHID R
        then array_init (TUD_HID_INOUT_DESC_LEN T)
               (TUD_HID_INOUT_DESCRIPTOR T (of_nat (itf_first R 3)) (hid2_report_len s))
        else [])"

text \<open>The characters of a C string: those before the first NUL.\<close>

definition c_chars :: "string \<Rightarrow> string" where
  "c_chars str = takeWhile (\<lambda>c. c \<noteq> CHR 0x00) str"

text \<open>
  The callback router: the registered handlers are the array entries below the counter,
  in slot order. In every state the program can reach, the counter is at most 2 and the
  slots from the counter on are still null (\<open>router_ok\<close>). \<open>subscribe_all fns\<close> is
  the state after registering the pointers \<open>fns\<close>, in this order, from start-up.
\<close>

definition registered :: "'fn router_state \<Rightarrow> 'fn option list" where
  "registered s =
     map (hid_set_report_callback_functions s) [0..<hid_set_report_callback_functions_count s]"

definition router_ok :: "'fn router_state \<Rightarrow> bool" where
  "router_ok s \<longleftrightarrow>
     hid_set_report_callback_functions_count s \<le> 2
     \<and> (\<forall>i \<ge> hid_set_report_callback_functions_count s.
           hid_set_report_callback_functions s i = None)"

definition subscribe_all :: "'fn option list \<Rightarrow> 'fn router_state" where
  "subscribe_all fns =
     foldl (\<lambda>s fn. USBSubscribeHIDSetReportCallback fn s) router_state_init fns"

text \<open>
  The string table as the specification lists it: the empty string, manufacturer,
  product, serial and the CDC label. Manufacturer and product are the strings the table
  captured on the first call; the serial is what \<open>snprintf\<close> leaves of the configured
  text, or the board ID when that is empty.
\<close>

definition string_source :: "platform \<Rightarrow> USBDeviceAttributes \<Rightarrow> str_state \<Rightarrow> nat \<Rightarrow> string" where
  "string_source P attrs s i =
     (let n = PICO_UNIQUE_BOARD_ID_SIZE_BYTES P * 2 + 1;
          serial = (if c_chars (snprintf P n (serialNumberText attrs)) = []
                    then pico_get_unique_board_id_string P n
                    else snprintf P n (serialNumberText attrs))
      in [[],
          case usbd_desc_str s of Some t \<Rightarrow> fst t | None \<Rightarrow> manufacturerName attrs,
          case usbd_desc_str s of Some t \<Rightarrow> snd t | None \<Rightarrow> productName attrs,
          serial,
          ''Board CDC''] ! i)"

text \<open>The loops are unfolded by hand in the proofs.\<close>

declare size_loop.simps [simp del] copy_loop.simps [simp del] str_loop.simps [simp del]
  set_report_loop.simps [simp del]

section \<open>Report ID allocator\<close>

text \<open>
  Claim C10. Each of the four report-ID accessors returns 1 plus the number of enabled
  roles that come strictly before its own role in the order keyboard, mouse, joystick,
  consumer control, whether or not its own role is enabled. The keyboard accessor is
  constantly 1 and no accessor returns a value below 1, so there is no "absent" result.
\<close>

theorem C10_report_id_accessors:
  "USBGetKeyboardReportID R = 1
   \<and> USBGetMouseReportID R = 1 + int (length (filter id [USBInstallKeyboard R]))
   \<and> USBGetJoystickReportID R =
       1 + int (length (filter id [USBInstallKeyboard R, USBInstallMouse R]))
   \<and> USBGetConsumerControlReportID R =
       1 + int (length (filter id
             [USBInstallKeyboard R, USBInstallMouse R, USBInstallJoystick R]))
   \<and> 1 \<le> USBGetKeyboardReportID R \<and> 1 \<le> USBGetMouseReportID R
   \<and> 1 \<le> USBGetJoystickReportID R \<and> 1 \<le> USBGetConsumerControlReportID R
   \<and> USBGetMouseReportID (R\<lparr>USBInstallMouse := False\<rparr>)
       = USBGetMouseReportID (R\<lparr>USBInstallMouse := True\<rparr>)
   \<and> USBGetKeyboardReportID (R\<lparr>USBInstallKeyboard := False\<rparr>)
       = USBGetKeyboardReportID (R\<lparr>USBInstallKeyboard := True\<rparr>)
   \<and> USBGetJoystickReportID (R\<lparr>USBInstallJoystick := False\<rparr>)
       = USBGetJoystickReportID (R\<lparr>USBInstallJoystick := True\<rparr>)
   \<and> USBGetConsumerControlReportID (R\<lparr>USBInstallConsumerControl := False\<rparr>)
       = USBGetConsumerControlReportID (R\<lparr>USBInstallConsumerControl := True\<rparr>)"
  by (simp add: USBGetKeyboardReportID_def USBGetMouseReportID_def
      USBGetJoystickReportID_def USBGetConsumerControlReportID_def)


section \<open>Device identity provider\<close>

lemma device_cb_fresh:
  assumes "device_desc_current spid R s"
  shows "fst (tud_descriptor_device_cb spid R s)
         = fst (tud_descriptor_device_cb spid R (s\<lparr>usbd_desc_device := None\<rparr>))"
proof (cases "usbd_desc_device s")
  case None
  then have "s\<lparr>usbd_desc_device := None\<rparr> = s" by simp
  then show ?thesis by simp
next
  case (Some d)
  with assms have "d = fst (tud_descriptor_device_cb spid R (s\<lparr>usbd_desc_device := None\<rparr>))"
    by (simp add: device_desc_current_def)
  moreover from Some have "fst (tud_descriptor_device_cb spid R s) = d"
    by (simp add: tud_descriptor_device_cb_def Let_def)
  ultimately show ?thesis by simp
qed

lemma device_cb_keeps_current:
  "device_desc_current spid R s \<Longrightarrow>
   device_desc_current spid R (snd (tud_descriptor_device_cb spid R s))"
  by (cases "usbd_desc_device s")
     (simp_all add: device_desc_current_def tud_descriptor_device_cb_def Let_def)

lemma device_cb_static_is_kept:
  "usbd_desc_device s = Some d \<Longrightarrow> fst (tud_descriptor_device_cb spid R s) = d"
  by (simp add: tud_descriptor_device_cb_def Let_def)

text \<open>
  Claim C5. While the static descriptor is current (see \<open>device_desc_current\<close>), the
  accessor returns the configured vendor ID. When the configured product ID equals the
  default \<open>USBD_PID\<close> the returned product ID is the default with 0x8000 ORed in for
  keyboard, 0x4000 ORed in for mouse, 0x0100 ORed in for joystick, 0x2000 XORed in for
  mass storage and 0x1000 XORed in for raw-HID-2, in this order; with keyboard and mouse
  only this is default OR 0x8000 OR 0x4000. Any other configured product ID is returned
  as it is.
\<close>

theorem C5_device_descriptor_ids:
  assumes "device_desc_current spid R s"
  shows "idVendor (fst (tud_descriptor_device_cb spid R s)) = vendorId (usb_device_attrs s)
    \<and> (productId (usb_device_attrs s) = USBD_PID spid \<longrightarrow>
         idProduct (fst (tud_descriptor_device_cb spid R s)) =
           ((((USBD_PID spid OR (if USBInstallKeyboard R then 0x8000 else 0))
                OR (if USBInstallMouse R then 0x4000 else 0))
               OR (if USBInstallJoystick R then 0x0100 else 0))
              XOR (if USBInstallMassStorage R then 0x2000 else 0))
             XOR (if USBInstallSecondHID_RawHID R then 0x1000 else 0))
    \<and> (productId (usb_device_attrs s) = USBD_PID spid \<and>
         USBInstallKeyboard R \<and> USBInstallMouse R \<and> \<not> USBInstallJoystick R \<and>
         \<not> USBInstallMassStorage R \<and> \<not> USBInstallSecondHID_RawHID R \<longrightarrow>
         idProduct (fst (tud_descriptor_device_cb spid R s))
           = (USBD_PID spid OR 0x8000) OR 0x4000)
    \<and> (productId (usb_device_attrs s) \<noteq> USBD_PID spid \<longrightarrow>
         idProduct (fst (tud_descriptor_device_cb spid R s)) = productId (usb_device_attrs s))"
  unfolding device_cb_fresh [OF assms]
  by (simp add: tud_descriptor_device_cb_def Let_def)

theorem C5_device_descriptor_ids_witness:
  "device_desc_current None (no_roles\<lparr>USBInstallKeyboard := True, USBInstallMouse := True\<rparr>)
     (dev_state_init None)
   \<and> idVendor (fst (tud_descriptor_device_cb None
         (no_roles\<lparr>USBInstallKeyboard := True, USBInstallMouse := True\<rparr>)
         (dev_state_init None))) = 0x2E8A
   \<and> idProduct (fst (tud_descriptor_device_cb None
         (no_roles\<lparr>USBInstallKeyboard := True, USBInstallMouse := True\<rparr>)
         (dev_state_init None))) = 0xC00A
   \<and> idProduct (fst (tud_descriptor_device_cb None
         (no_roles\<lparr>USBInstallKeyboard := True, USBInstallMouse := True\<rparr>)
         (USBSetDeviceAttributes (usb_device_attrs_default None\<lparr>productId := 0x1234\<rparr>)
            (dev_state_init None)))) = 0x1234"
proof -
  let ?R = "no_roles\<lparr>USBInstallKeyboard := True, USBInstallMouse := True\<rparr>"
  let ?s = "dev_state_init None"
  let ?t = "USBSetDeviceAttributes (usb_device_attrs_default None\<lparr>productId := 0x1234\<rparr>) ?s"
  have cur: "device_desc_current None ?R ?s"
    by (simp add: device_desc_current_def dev_state_init_def)
  have cur': "device_desc_current None ?R ?t"
    by (simp add: device_desc_current_def dev_state_init_def USBSetDeviceAttributes_def)
  have v: "idVendor (fst (tud_descriptor_device_cb None ?R ?s)) = 0x2E8A"
    and p: "idProduct (fst (tud_descriptor_device_cb None ?R ?s)) = 0xC00A"
    using C5_device_descriptor_ids [OF cur]
    by (simp_all add: dev_state_init_def usb_device_attrs_default_def USBD_VID_def no_roles_def)
  have q: "idProduct (fst (tud_descriptor_device_cb None ?R ?t)) = 0x1234"
    using C5_device_descriptor_ids [OF cur']
    by (simp add: dev_state_init_def usb_device_attrs_default_def USBSetDeviceAttributes_def)
  from cur v p q show ?thesis by simp
qed


section \<open>HID report descriptor builder\<close>

lemma length_array_init: "length (array_init N xs) = N"
  by (simp add: array_init_def)

lemma enabled_report_types_eq:
  "enabled_report_types R =
     (map fst (filter snd
        [(Report_Type_Keyboard, USBInstallKeyboard R), (Report_Type_Mouse, USBInstallMouse R),
         (Report_Type_Joystick, USBInstallJoystick R),
         (Report_Type_ConsumerControl, USBInstallConsumerControl R)])
      @ replicate (4 - length (simple_hid_templates T R)) 0,
      length (simple_hid_templates T R))"
  by (simp add: enabled_report_types_def Report_Type_Count_def simple_hid_templates_def
      eval_nat_numeral)

lemmas report_type_defs =
  Report_Type_Keyboard_def Report_Type_Mouse_def Report_Type_Joystick_def
  Report_Type_ConsumerControl_def

lemma size_loop_total:
  "size_loop T (fst (enabled_report_types R)) (snd (enabled_report_types R)) 0 0
   = template_sizes T (simple_hid_templates T R)"
  by (cases "USBInstallKeyboard R"; cases "USBInstallMouse R"; cases "USBInstallJoystick R";
      cases "USBInstallConsumerControl R")
     (simp_all add: enabled_report_types_eq [of R T] template_sizes_def simple_hid_templates_def
        size_loop.simps eval_nat_numeral report_type_defs)

lemma copy_loop_total:
  assumes "length buf = template_sizes T (simple_hid_templates T R)"
  shows "copy_loop T (fst (enabled_report_types R)) (snd (enabled_report_types R)) 0
           (Some buf, fl) 0
         = ((Some (stamped_templates T (simple_hid_templates T R)), fl),
            template_sizes T (simple_hid_templates T R))"
  using assms
  by (cases "USBInstallKeyboard R"; cases "USBInstallMouse R"; cases "USBInstallJoystick R";
      cases "USBInstallConsumerControl R")
     (simp_all add: enabled_report_types_eq [of R T] template_sizes_def simple_hid_templates_def
        stamped_templates_def copy_loop.simps eval_nat_numeral report_type_defs memcpy_def
        expand_def HID_REPORT_ID_def upt_rec)

lemma length_stamped_aux:
  "length ids = length ts \<Longrightarrow>
   length (concat (map (\<lambda>(t, i). expand t (HID_REPORT_ID T (of_nat i))) (zip ts ids)))
   = sum_list (map (\<lambda>t. length (expand t (HID_REPORT_ID T 1))) ts)"
proof (induction ts arbitrary: ids)
  case Nil
  then show ?case by simp
next
  case (Cons t ts)
  then obtain i ids' where ids: "ids = i # ids'" and len: "length ids' = length ts"
    by (cases ids) auto
  from Cons.IH [OF len] show ?case
    by (simp add: ids expand_def HID_REPORT_ID_def)
qed

lemma length_stamped_templates:
  "length (stamped_templates T ts) = template_sizes T ts"
proof -
  have "length [1..<Suc (length ts)] = length ts"
    by (simp only: length_upt diff_Suc_1)
  then show ?thesis
    unfolding stamped_templates_def template_sizes_def by (rule length_stamped_aux)
qed

lemma SetupDescHIDReport_none:
  assumes "simple_hid_templates T R = []"
  shows "SetupDescHIDReport T R m s = s\<lparr>hid_report := None, hid_report_len := 0\<rparr>"
  using assms
  by (simp add: SetupDescHIDReport_def enabled_report_types_eq [of R T])

lemma SetupDescHIDReport_alloc_ok:
  assumes "simple_hid_templates T R \<noteq> []"
    and "m (template_sizes T (simple_hid_templates T R)) = Some g"
  shows "SetupDescHIDReport T R m s =
           s\<lparr>hid_report := Some (stamped_templates T (simple_hid_templates T R)),
             hid_report_len := template_sizes T (simple_hid_templates T R)\<rparr>"
proof -
  let ?n = "template_sizes T (simple_hid_templates T R)"
  have cnt: "snd (enabled_report_types R) \<noteq> 0"
    using assms(1) by (simp add: enabled_report_types_eq [of R T])
  have al: "malloc m ?n = Some (map g [0..<?n])"
    using assms(2) by (simp add: malloc_def)
  have cp: "copy_loop T (fst (enabled_report_types R)) (snd (enabled_report_types R)) 0
              (Some (map g [0..<?n]), faults s) 0
            = ((Some (stamped_templates T (simple_hid_templates T R)), faults s), ?n)"
    by (rule copy_loop_total) simp
  show ?thesis
    using cnt
    by (simp add: SetupDescHIDReport_def split_beta Let_def size_loop_total al cp)
qed

lemma SetupDescHIDReport_alloc_fails:
  assumes "simple_hid_templates T R \<noteq> []"
    and "m (template_sizes T (simple_hid_templates T R)) = None"
  shows "SetupDescHIDReport T R m s = s\<lparr>hid_report := None\<rparr>"
proof -
  have cnt: "snd (enabled_report_types R) \<noteq> 0"
    using assms(1) by (simp add: enabled_report_types_eq [of R T])
  show ?thesis
    using cnt assms(2)
    by (simp add: SetupDescHIDReport_def split_beta Let_def size_loop_total malloc_def)
qed

text \<open>
  Claim C2. For every set of enabled simple-HID roles (keyboard, mouse, joystick,
  consumer control) the number of templates is the number of enabled roles. With none
  enabled, the build leaves a null pointer and length 0. Otherwise, when the allocation
  succeeds, the buffer is the concatenation of the enabled roles' templates in that
  order, the \<open>i\<close>-th stamped with report ID \<open>i\<close> for \<open>i\<close> from 1 to their number, the
  stored length is the sum of the templates' sizes, which is the length of the buffer,
  and no write goes astray.
\<close>

theorem C2_hid_report_buffer:
  "length (simple_hid_templates T R)
     = length (filter id [USBInstallKeyboard R, USBInstallMouse R, USBInstallJoystick R,
                          USBInstallConsumerControl R])
   \<and> (simple_hid_templates T R = [] \<longrightarrow>
        hid_report (SetupDescHIDReport T R m s) = None
        \<and> hid_report_len (SetupDescHIDReport T R m s) = 0)
   \<and> (simple_hid_templates T R \<noteq> []
        \<and> m (template_sizes T (simple_hid_templates T R)) \<noteq> None \<longrightarrow>
        hid_report (SetupDescHIDReport T R m s)
          = Some (stamped_templates T (simple_hid_templates T R))
        \<and> hid_report_len (SetupDescHIDReport T R m s)
          = template_sizes T (simple_hid_templates T R)
        \<and> length (stamped_templates T (simple_hid_templates T R))
          = template_sizes T (simple_hid_templates T R)
        \<and> faults (SetupDescHIDReport T R m s) = faults s)"
proof (intro conjI impI)
  show "length (simple_hid_templates T R)
     = length (filter id [USBInstallKeyboard R, USBInstallMouse R, USBInstallJoystick R,
                          USBInstallConsumerControl R])"
    by (simp add: simple_hid_templates_def)
next
  assume "simple_hid_templates T R = []"
  then show "hid_report (SetupDescHIDReport T R m s) = None"
    and "hid_report_len (SetupDescHIDReport T R m s) = 0"
    by (simp_all add: SetupDescHIDReport_none)
next
  assume "simple_hid_templates T R \<noteq> []
        \<and> m (template_sizes T (simple_hid_templates T R)) \<noteq> None"
  then obtain g where ne: "simple_hid_templates T R \<noteq> []"
    and al: "m (template_sizes T (simple_hid_templates T R)) = Some g"
    by auto
  have eq: "SetupDescHIDReport T R m s =
           s\<lparr>hid_report := Some (stamped_templates T (simple_hid_templates T R)),
             hid_report_len := template_sizes T (simple_hid_templates T R)\<rparr>"
    using ne al by (rule SetupDescHIDReport_alloc_ok)
  show "hid_report (SetupDescHIDReport T R m s)
          = Some (stamped_templates T (simple_hid_templates T R))"
    by (simp add: eq)
  show "hid_report_len (SetupDescHIDReport T R m s)
          = template_sizes T (simple_hid_templates T R)"
    by (simp add: eq)
  show "length (stamped_templates T (simple_hid_templates T R))
          = template_sizes T (simple_hid_templates T R)"
    by (rule length_stamped_templates)
  show "faults (SetupDescHIDReport T R m s) = faults s"
    by (simp add: eq)
qed

theorem C2_hid_report_buffer_witness:
  "simple_hid_templates tusb_sample
       (no_roles\<lparr>USBInstallKeyboard := True, USBInstallConsumerControl := True\<rparr>) \<noteq> []
   \<and> alloc_ok (template_sizes tusb_sample (simple_hid_templates tusb_sample
       (no_roles\<lparr>USBInstallKeyboard := True, USBInstallConsumerControl := True\<rparr>))) \<noteq> None
   \<and> hid_report (SetupDescHIDReport tusb_sample
       (no_roles\<lparr>USBInstallKeyboard := True, USBInstallConsumerControl := True\<rparr>)
       alloc_ok desc_state_init)
     = Some [0x05, 0x01, 0x09, 0x06, 0xA1, 0x01, 0x85, 1, 0xC0,
             0x05, 0x0C, 0x09, 0x01, 0xA1, 0x01, 0x85, 2,
             0x15, 0x00, 0x26, 0xFF, 0x03, 0x19, 0x00, 0x2A, 0xFF, 0x03,
             0x95, 0x01, 0x75, 0x10, 0x81, 0x00, 0xC0]
   \<and> hid_report_len (SetupDescHIDReport tusb_sample
       (no_roles\<lparr>USBInstallKeyboard := True, USBInstallConsumerControl := True\<rparr>)
       alloc_ok desc_state_init) = 34
   \<and> simple_hid_templates tusb_sample no_roles = []
   \<and> hid_report (SetupDescHIDReport tusb_sample no_roles alloc_ok desc_state_init) = None
   \<and> hid_report_len (SetupDescHIDReport tusb_sample no_roles alloc_ok desc_state_init) = 0"
  using C2_hid_report_buffer
      [of tusb_sample "no_roles\<lparr>USBInstallKeyboard := True, USBInstallConsumerControl := True\<rparr>"
          alloc_ok desc_state_init]
    C2_hid_report_buffer [of tusb_sample no_roles alloc_ok desc_state_init]
  by (simp add: simple_hid_templates_def stamped_templates_def template_sizes_def
      tusb_sample_def no_roles_def alloc_ok_def expand_def HID_REPORT_ID_def upt_rec)


section \<open>HID instance indices\<close>

text \<open>
  Claim C4 names a defect of the code. The accessor for the shared simple-HID group
  tests the serial role only. With keyboard and raw-HID-2 linked in and no serial role,
  the shared report descriptor is built and served for HID instance 0, and the sibling
  accessor puts the raw group at instance 1, which counts the shared group as present;
  yet the accessor for the shared group returns -1, where the claim has 0.
\<close>

theorem C4_shared_index_without_serial:
  "USBInstallKeyboard (no_roles\<lparr>USBInstallKeyboard := True, USBInstallSecondHID_RawHID := True\<rparr>)
   \<and> \<not> USBInstallSerial
         (no_roles\<lparr>USBInstallKeyboard := True, USBInstallSecondHID_RawHID := True\<rparr>)
   \<and> USBGetHIDInstanceIndexForSharedHID
         (no_roles\<lparr>USBInstallKeyboard := True, USBInstallSecondHID_RawHID := True\<rparr>) = - 1
   \<and> USBGetHIDInstanceIndexForRawHID
         (no_roles\<lparr>USBInstallKeyboard := True, USBInstallSecondHID_RawHID := True\<rparr>) = 1
   \<and> tud_hid_descriptor_report_cb 0
         (SetupDescHIDReport tusb_sample
            (no_roles\<lparr>USBInstallKeyboard := True, USBInstallSecondHID_RawHID := True\<rparr>)
            alloc_ok desc_state_init)
       = Some [0x05, 0x01, 0x09, 0x06, 0xA1, 0x01, 0x85, 1, 0xC0]"
proof -
  let ?R = "no_roles\<lparr>USBInstallKeyboard := True, USBInstallSecondHID_RawHID := True\<rparr>"
  have ts: "simple_hid_templates tusb_sample ?R = [TUD_HID_REPORT_DESC_KEYBOARD tusb_sample]"
    by (simp add: simple_hid_templates_def no_roles_def)
  have al: "alloc_ok (template_sizes tusb_sample (simple_hid_templates tusb_sample ?R))
              = Some (\<lambda>i. 0xAA)"
    by (simp add: alloc_ok_def)
  have ne: "simple_hid_templates tusb_sample ?R \<noteq> []"
    by (simp add: ts)
  have s1: "SetupDescHIDReport tusb_sample ?R alloc_ok desc_state_init =
          desc_state_init\<lparr>hid_report :=
              Some (stamped_templates tusb_sample (simple_hid_templates tusb_sample ?R)),
            hid_report_len := template_sizes tusb_sample (simple_hid_templates tusb_sample ?R)\<rparr>"
    using ne al by (rule SetupDescHIDReport_alloc_ok)
  have "tud_hid_descriptor_report_cb 0
         (SetupDescHIDReport tusb_sample ?R alloc_ok desc_state_init)
       = Some [0x05, 0x01, 0x09, 0x06, 0xA1, 0x01, 0x85, 1, 0xC0]"
    unfolding s1 ts
    by (simp add: tud_hid_descriptor_report_cb_def GetDescHIDReport_def
        stamped_templates_def expand_def HID_REPORT_ID_def tusb_sample_def)
  then show ?thesis
    by (simp add: no_roles_def USBGetHIDInstanceIndexForSharedHID_def
        USBGetHIDInstanceIndexForRawHID_def)
qed

section \<open>Composite configuration descriptor builder\<close>

lemma itf_numbers_contiguous: "itf_numbers R = [0..<itf_first R 4]"
  by (simp add: itf_numbers_def itf_first_def itf_widths_def eval_nat_numeral upt_rec)

lemma length_cfg_expected: "length (cfg_expected T R s) = cfg_total_len T R"
  by (simp add: cfg_expected_def cfg_total_len_def length_array_init)

text \<open>\<open>bzero\<close> over a whole block leaves zeros only, whatever the block held.\<close>

lemma bzero_zero_fills:
  "bzero (Some buf, fl) (length buf) = (Some (replicate (length buf) 0), fl)"
  by (simp add: bzero_def memcpy_def)

text \<open>
  The source takes the HID group as present with keyboard, mouse or joystick (line 302).
  This is the presence of a simple-HID role unless consumer control is the only one
  linked in. Under this proviso the build leaves the expected descriptor.
\<close>

lemma SetupUSBDescriptor_alloc_ok:
  assumes "usbd_desc_cfg s = None" and "m (cfg_total_len T R) = Some g"
    and "USBInstallConsumerControl R \<longrightarrow>
         USBInstallKeyboard R \<or> USBInstallMouse R \<or> USBInstallJoystick R"
  shows "SetupUSBDescriptor T R m s = s\<lparr>usbd_desc_cfg := Some (cfg_expected T R s)\<rparr>"
proof -
  have h: "(USBInstallKeyboard R \<or> USBInstallMouse R \<or> USBInstallJoystick R)
             = hid_group_enabled R"
    using assms(3) by (auto simp add: hid_group_enabled_def)
  show ?thesis
    using assms(1,2)
    by (cases "USBInstallSerial R"; cases "hid_group_enabled R";
        cases "USBInstallMassStorage R"; cases "USBInstallSecondHID_RawHID R")
       (simp_all add: SetupUSBDescriptor_def Let_def cfg_total_len_def cfg_expected_def
          itf_first_def itf_widths_def h malloc_def bzero_def
          memcpy_def GetDescHIDReport_def GetDescHID2Report_def eval_nat_numeral
          length_array_init)
qed

lemma SetupUSBDescriptor_alloc_fails:
  assumes "usbd_desc_cfg s = None" and "\<And>n. m n = None"
  shows "SetupUSBDescriptor T R m s = s"
  using assms
  by (cases "USBInstallSerial R";
      cases "USBInstallKeyboard R \<or> USBInstallMouse R \<or> USBInstallJoystick R";
      cases "USBInstallMassStorage R"; cases "USBInstallSecondHID_RawHID R")
     (simp_all add: SetupUSBDescriptor_def Let_def malloc_def length_array_init)

lemma SetupUSBDescriptor_present:
  "usbd_desc_cfg s \<noteq> None \<Longrightarrow> SetupUSBDescriptor T R m s = s"
  by (cases "usbd_desc_cfg s") (simp_all add: SetupUSBDescriptor_def)

text \<open>
  For every role assignment that does not have consumer control as its only simple-HID
  role: when no configuration descriptor exists yet and the allocation succeeds, the
  build leaves the config header followed, with no gap, by the sub-descriptor of each
  enabled group in the order serial, HID, mass storage, raw-HID-2; the interface numbers
  in group order are exactly 0, 1, ... up to the interface count written into the
  header; the buffer's length, which is also the total length written into the header,
  is the header size plus the sizes of the enabled groups' sub-descriptors; and no write
  goes astray. With no role at all the buffer is the bare header with interface count 0.
\<close>

lemma SetupUSBDescriptor_layout:
  assumes "usbd_desc_cfg s = None" and "m (cfg_total_len T R) \<noteq> None"
    and "USBInstallConsumerControl R \<longrightarrow>
         USBInstallKeyboard R \<or> USBInstallMouse R \<or> USBInstallJoystick R"
  shows "usbd_desc_cfg (SetupUSBDescriptor T R m s) = Some (cfg_expected T R s)
    \<and> length (cfg_expected T R s) = cfg_total_len T R
    \<and> itf_numbers R = [0..<itf_first R 4]
    \<and> faults (SetupUSBDescriptor T R m s) = faults s
    \<and> (\<not> USBInstallSerial R \<and> \<not> hid_group_enabled R \<and> \<not> USBInstallMassStorage R
         \<and> \<not> USBInstallSecondHID_RawHID R \<longrightarrow>
       usbd_desc_cfg (SetupUSBDescriptor T R m s)
         = Some (array_init (TUD_CONFIG_DESC_LEN T)
                   (TUD_CONFIG_DESCRIPTOR T 0 (TUD_CONFIG_DESC_LEN T))))"
proof -
  from assms(2) obtain g where al: "m (cfg_total_len T R) = Some g" by auto
  have eq: "SetupUSBDescriptor T R m s = s\<lparr>usbd_desc_cfg := Some (cfg_expected T R s)\<rparr>"
    using assms(1) al assms(3) by (rule SetupUSBDescriptor_alloc_ok)
  have bare: "cfg_expected T R s
       = array_init (TUD_CONFIG_DESC_LEN T) (TUD_CONFIG_DESCRIPTOR T 0 (TUD_CONFIG_DESC_LEN T))"
    if "\<not> USBInstallSerial R \<and> \<not> hid_group_enabled R \<and> \<not> USBInstallMassStorage R
         \<and> \<not> USBInstallSecondHID_RawHID R"
    using that by (simp add: cfg_expected_def cfg_total_len_def itf_first_def itf_widths_def)
  show ?thesis
    by (simp add: eq length_cfg_expected itf_numbers_contiguous bare)
qed

text \<open>
  Claim C1 names a defect of the code. With consumer control as the only role linked in,
  a simple-HID role is enabled: the report builder leaves a report descriptor of 25
  bytes, and the claim's descriptor is the header followed by the HID sub-descriptor at
  interface 0, 34 bytes long with interface count 1. The configuration builder leaves
  consumer control out of its test for the HID group and builds the bare header of 9
  bytes with interface count 0 and total length 9.
\<close>

theorem C1_consumer_control_only:
  "hid_group_enabled (no_roles\<lparr>USBInstallConsumerControl := True\<rparr>)
   \<and> hid_report_len (SetupDescHIDReport tusb_sample
        (no_roles\<lparr>USBInstallConsumerControl := True\<rparr>) alloc_ok desc_state_init) = 25
   \<and> cfg_expected tusb_sample (no_roles\<lparr>USBInstallConsumerControl := True\<rparr>)
        (SetupDescHIDReport tusb_sample
           (no_roles\<lparr>USBInstallConsumerControl := True\<rparr>) alloc_ok desc_state_init)
     = [9, 2, 34, 0, 1, 1, 0, 160, 125,
        9, 4, 0, 0, 1, 3, 0, 0, 0, 9, 33, 17, 1, 0, 1, 34, 25, 0, 7, 5, 131, 3, 64, 0, 10]
   \<and> usbd_desc_cfg (SetupUSBDescriptor tusb_sample
        (no_roles\<lparr>USBInstallConsumerControl := True\<rparr>) alloc_ok
        (SetupDescHIDReport tusb_sample
           (no_roles\<lparr>USBInstallConsumerControl := True\<rparr>) alloc_ok desc_state_init))
     = Some [9, 2, 9, 0, 0, 1, 0, 160, 125]"
proof -
  let ?R = "no_roles\<lparr>USBInstallConsumerControl := True\<rparr>"
  have ts: "simple_hid_templates tusb_sample ?R = [TUD_HID_REPORT_DESC_CONSUMER tusb_sample]"
    by (simp add: simple_hid_templates_def no_roles_def)
  have ne: "simple_hid_templates tusb_sample ?R \<noteq> []"
    by (simp add: ts)
  have al: "alloc_ok (template_sizes tusb_sample (simple_hid_templates tusb_sample ?R))
              = Some (\<lambda>i. 0xAA)"
    by (simp add: alloc_ok_def)
  have sz: "template_sizes tusb_sample (simple_hid_templates tusb_sample ?R) = 25"
    unfolding ts by (simp add: template_sizes_def expand_def HID_REPORT_ID_def tusb_sample_def)
  have s1: "SetupDescHIDReport tusb_sample ?R alloc_ok desc_state_init =
          desc_state_init\<lparr>hid_report :=
              Some (stamped_templates tusb_sample (simple_hid_templates tusb_sample ?R)),
            hid_report_len := 25\<rparr>"
    using SetupDescHIDReport_alloc_ok
      [where T = tusb_sample and R = "?R" and m = alloc_ok and s = desc_state_init, OF ne al]
    by (simp add: sz)
  have grp: "hid_group_enabled ?R"
    by (simp add: hid_group_enabled_def no_roles_def)
  have tot: "cfg_total_len tusb_sample ?R = 34"
    by (simp add: cfg_total_len_def grp) (simp add: no_roles_def tusb_sample_def)
  have exp: "cfg_expected tusb_sample ?R
        (SetupDescHIDReport tusb_sample ?R alloc_ok desc_state_init)
     = [9, 2, 34, 0, 1, 1, 0, 160, 125,
        9, 4, 0, 0, 1, 3, 0, 0, 0, 9, 33, 17, 1, 0, 1, 34, 25, 0, 7, 5, 131, 3, 64, 0, 10]"
    unfolding s1
    by (simp add: cfg_expected_def tot grp itf_first_def itf_widths_def)
       (simp add: no_roles_def tusb_sample_def array_init_def U16_TO_U8S_LE_def)
  have got: "usbd_desc_cfg (SetupUSBDescriptor tusb_sample ?R alloc_ok
        (SetupDescHIDReport tusb_sample ?R alloc_ok desc_state_init))
     = Some [9, 2, 9, 0, 0, 1, 0, 160, 125]"
    unfolding s1
    by (simp add: SetupUSBDescriptor_def Let_def no_roles_def desc_state_init_def
        malloc_def alloc_ok_def bzero_def memcpy_def GetDescHIDReport_def
        GetDescHID2Report_def tusb_sample_def array_init_def U16_TO_U8S_LE_def upt_rec)
  from grp s1 exp got show ?thesis by simp
qed

text \<open>
  Claim C7. The build is idempotent by presence: in every state where the configuration
  descriptor pointer is non-null a call changes nothing, whatever the roles and the
  allocator are; so when a first call has left a buffer, a second call in succession
  leaves the state of the first, pointer and contents included.
\<close>

theorem C7_configuration_build_idempotent:
  "(usbd_desc_cfg s \<noteq> None \<longrightarrow> SetupUSBDescriptor T R m s = s)
   \<and> (usbd_desc_cfg (SetupUSBDescriptor T R m s) \<noteq> None \<longrightarrow>
        SetupUSBDescriptor T' R' m' (SetupUSBDescriptor T R m s) = SetupUSBDescriptor T R m s)"
  by (simp add: SetupUSBDescriptor_present)

theorem C7_configuration_build_idempotent_witness:
  "usbd_desc_cfg (SetupUSBDescriptor tusb_sample no_roles alloc_ok desc_state_init) \<noteq> None
   \<and> SetupUSBDescriptor tusb_sample (no_roles\<lparr>USBInstallSerial := True\<rparr>) alloc_ok
        (SetupUSBDescriptor tusb_sample no_roles alloc_ok desc_state_init)
     = SetupUSBDescriptor tusb_sample no_roles alloc_ok desc_state_init
   \<and> usbd_desc_cfg (SetupUSBDescriptor tusb_sample (no_roles\<lparr>USBInstallSerial := True\<rparr>)
        alloc_ok (SetupUSBDescriptor tusb_sample no_roles alloc_ok desc_state_init))
     = Some [9, 2, 9, 0, 0, 1, 0, 160, 125]"
proof -
  have al: "alloc_ok (cfg_total_len tusb_sample no_roles) = Some (\<lambda>i. 0xAA)"
    by (simp add: alloc_ok_def)
  have n0: "usbd_desc_cfg desc_state_init = None"
    by (simp add: desc_state_init_def)
  have c0: "USBInstallConsumerControl no_roles \<longrightarrow>
         USBInstallKeyboard no_roles \<or> USBInstallMouse no_roles \<or> USBInstallJoystick no_roles"
    by (simp add: no_roles_def)
  have first: "SetupUSBDescriptor tusb_sample no_roles alloc_ok desc_state_init
      = desc_state_init\<lparr>usbd_desc_cfg := Some [9, 2, 9, 0, 0, 1, 0, 160, 125]\<rparr>"
    using SetupUSBDescriptor_alloc_ok
      [where s = desc_state_init and m = alloc_ok and T = tusb_sample and R = no_roles,
       OF n0 al c0]
    by (simp add: cfg_expected_def cfg_total_len_def hid_group_enabled_def no_roles_def
          tusb_sample_def itf_first_def itf_widths_def array_init_def U16_TO_U8S_LE_def)
  from C7_configuration_build_idempotent
      [of "desc_state_init" tusb_sample no_roles alloc_ok tusb_sample
          "no_roles\<lparr>USBInstallSerial := True\<rparr>" alloc_ok]
  show ?thesis
    by (simp add: first)
qed

section \<open>Allocation failure\<close>

text \<open>
  When the allocation fails, the build of the shared report buffer leaves the pointer
  null and the length and the fault log as they were, and the build of the
  configuration descriptor leaves the whole state as it was. The build of the raw-HID-2
  report buffer has no test of the pointer: it copies the template through the null
  pointer and stores the template's size as the length.
\<close>

lemma SetupDescHIDReport_alloc_fails_fields:
  assumes "simple_hid_templates T R \<noteq> []"
    and "m (template_sizes T (simple_hid_templates T R)) = None"
  shows "hid_report (SetupDescHIDReport T R m s) = None
    \<and> hid_report_len (SetupDescHIDReport T R m s) = hid_report_len s
    \<and> faults (SetupDescHIDReport T R m s) = faults s"
  using SetupDescHIDReport_alloc_fails [where T = T and R = R and m = m and s = s] assms
  by simp

lemma SetupDescHID2Report_alloc_fails:
  assumes "USBInstallSecondHID_RawHID R"
    and "m (length (TUD_HID_REPORT_DESC_GENERIC_INOUT T 64)) = None"
  shows "SetupDescHID2Report T R m s =
           s\<lparr>hid2_report := None,
             hid2_report_len := length (TUD_HID_REPORT_DESC_GENERIC_INOUT T 64),
             faults := faults s @ [NullPointerWrite]\<rparr>"
  using assms by (simp add: SetupDescHID2Report_def Let_def malloc_def memcpy_def)

text \<open>
  Claim C3 fails for the raw-HID-2 build. With the raw-HID-2 role linked in and a failing
  allocator, starting from the initial state, the call writes through the null pointer
  and leaves the length at 34, the size of the template, not at 0.
\<close>

theorem C3_raw_hid2_allocation_failure:
  "hid2_report (SetupDescHID2Report tusb_sample (no_roles\<lparr>USBInstallSecondHID_RawHID := True\<rparr>)
       alloc_fail desc_state_init) = None
   \<and> hid2_report_len (SetupDescHID2Report tusb_sample
       (no_roles\<lparr>USBInstallSecondHID_RawHID := True\<rparr>) alloc_fail desc_state_init) = 34
   \<and> faults (SetupDescHID2Report tusb_sample
       (no_roles\<lparr>USBInstallSecondHID_RawHID := True\<rparr>) alloc_fail desc_state_init)
     = [NullPointerWrite]"
  by (simp add: SetupDescHID2Report_def Let_def malloc_def memcpy_def alloc_fail_def
      no_roles_def tusb_sample_def desc_state_init_def)


section \<open>Controller task dispatcher\<close>

text \<open>
  Claim C6. The interrupt handler only tries to take the mutex. When the mutex is free it
  enters \<open>tud_task\<close> holding the mutex as the interrupt context and releases it, so
  the state changes by the effect of \<open>tud_task\<close> alone; when the mutex is held it
  changes nothing and does not enter \<open>tud_task\<close>. Hence every entry into \<open>tud_task\<close>
  that the handler makes happens with the mutex held by the handler, the handler leaves
  the ownership of the mutex as it found it, and after a skipped attempt the next
  attempt that follows the release runs \<open>tud_task\<close>.
\<close>

theorem C6_interrupt_try_lock:
  "(usb_mutex s = None \<longrightarrow>
      usb_irq tud_task s
        = s\<lparr>stack := tud_task (stack s), task_log := task_log s @ [Some Interrupt]\<rparr>)
   \<and> (usb_mutex s \<noteq> None \<longrightarrow> usb_irq tud_task s = s)
   \<and> task_log (usb_irq tud_task s)
        = task_log s @ (if usb_mutex s = None then [Some Interrupt] else [])
   \<and> usb_mutex (usb_irq tud_task s) = usb_mutex s
   \<and> (usb_mutex s \<noteq> None \<longrightarrow>
        usb_irq tud_task (mutex_exit (usb_irq tud_task s))
          = s\<lparr>usb_mutex := None, stack := tud_task (stack s),
              task_log := task_log s @ [Some Interrupt]\<rparr>)"
  by (cases "usb_mutex s")
     (simp_all add: usb_irq_def mutex_try_enter_def mutex_exit_def call_tud_task_def)

theorem C6_interrupt_try_lock_witness:
  "usb_mutex \<lparr> usb_mutex = Some Inline, stack = (0::nat), task_log = [] \<rparr> \<noteq> None
   \<and> usb_irq Suc \<lparr> usb_mutex = Some Inline, stack = (0::nat), task_log = [] \<rparr>
       = \<lparr> usb_mutex = Some Inline, stack = 0, task_log = [] \<rparr>
   \<and> usb_irq Suc (mutex_exit (usb_irq Suc
         \<lparr> usb_mutex = Some Inline, stack = (0::nat), task_log = [] \<rparr>))
       = \<lparr> usb_mutex = None, stack = 1, task_log = [Some Interrupt] \<rparr>
   \<and> usb_mutex \<lparr> usb_mutex = None, stack = (5::nat), task_log = [] \<rparr> = None
   \<and> usb_irq Suc \<lparr> usb_mutex = None, stack = (5::nat), task_log = [] \<rparr>
       = \<lparr> usb_mutex = None, stack = 6, task_log = [Some Interrupt] \<rparr>"
  using C6_interrupt_try_lock
      [of "\<lparr> usb_mutex = Some Inline, stack = (0::nat), task_log = [] \<rparr>" Suc]
    C6_interrupt_try_lock
      [of "\<lparr> usb_mutex = None, stack = (5::nat), task_log = [] \<rparr>" Suc]
  by auto

section \<open>Callback router\<close>

lemma router_ok_init: "router_ok router_state_init"
  by (simp add: router_ok_def router_state_init_def)

lemma router_ok_subscribe: "router_ok s \<Longrightarrow> router_ok (USBSubscribeHIDSetReportCallback fn s)"
  by (auto simp add: router_ok_def USBSubscribeHIDSetReportCallback_def)

lemma registered_subscribe:
  "registered (USBSubscribeHIDSetReportCallback fn s)
     = (if hid_set_report_callback_functions_count s < 2 then registered s @ [fn]
        else registered s)"
  by (simp add: registered_def USBSubscribeHIDSetReportCallback_def)

lemma set_report_loop_unfold:
  "set_report_loop s args 0 []
     = (case hid_set_report_callback_functions s 0 of Some f \<Rightarrow> [(f, args)] | None \<Rightarrow> [])
       @ (case hid_set_report_callback_functions s 1 of Some f \<Rightarrow> [(f, args)] | None \<Rightarrow> [])"
  by (simp add: set_report_loop.simps split: option.splits)

lemma dispatch_registered:
  assumes "router_ok s"
  shows "tud_hid_set_report_cb instance report_id report_type buffer bufsize s
         = map (\<lambda>f. (f, (instance, report_id, report_type, buffer, bufsize)))
             (List.map_filter id (registered s))"
proof -
  let ?n = "hid_set_report_callback_functions_count s"
  from assms have "?n = 0 \<or> ?n = 1 \<or> ?n = 2"
    by (auto simp add: router_ok_def)
  then show ?thesis
    using assms
    by (auto simp add: tud_hid_set_report_cb_def set_report_loop_unfold registered_def
        router_ok_def List.map_filter_def upt_rec split: option.splits)
qed

lemma subscribe_all_snoc:
  "subscribe_all (fns @ [fn]) = USBSubscribeHIDSetReportCallback fn (subscribe_all fns)"
  by (simp add: subscribe_all_def)

lemma router_ok_subscribe_all: "router_ok (subscribe_all fns)"
proof (induction fns rule: rev_induct)
  case Nil
  show ?case by (simp add: subscribe_all_def router_ok_init)
next
  case (snoc fn fns)
  then show ?case by (simp add: subscribe_all_snoc router_ok_subscribe)
qed

lemma length_registered: "length (registered s) = hid_set_report_callback_functions_count s"
  by (simp add: registered_def)

lemma registered_subscribe_all: "registered (subscribe_all fns) = take 2 fns"
proof (induction fns rule: rev_induct)
  case Nil
  show ?case by (simp add: subscribe_all_def registered_def router_state_init_def)
next
  case (snoc fn fns)
  have cnt: "hid_set_report_callback_functions_count (subscribe_all fns) = min 2 (length fns)"
    using snoc.IH length_registered [of "subscribe_all fns"] by simp
  show ?case
    by (simp add: subscribe_all_snoc registered_subscribe cnt snoc.IH)
qed

lemma count_subscribe_all:
  "hid_set_report_callback_functions_count (subscribe_all fns) = min 2 (length fns)"
  using registered_subscribe_all [of fns] length_registered [of "subscribe_all fns"] by simp

text \<open>
  Claim C9. After any sequence of registrations from start-up, the registered handlers
  are the first two of the sequence, in order, and the counter is their number, at most
  2. A further registration while fewer than 2 are registered appends the pointer at the
  next slot and increments the counter; a registration at capacity leaves the state
  unchanged. A set-report event calls the registered non-null handlers in registration
  order, each with the instance, report id, report type, buffer pointer and size of the
  event.
\<close>

theorem C9_callback_router:
  "registered (subscribe_all fns) = take 2 fns
   \<and> hid_set_report_callback_functions_count (subscribe_all fns) = min 2 (length fns)
   \<and> (length fns < 2 \<longrightarrow>
        registered (USBSubscribeHIDSetReportCallback fn (subscribe_all fns))
          = registered (subscribe_all fns) @ [fn]
        \<and> hid_set_report_callback_functions
            (USBSubscribeHIDSetReportCallback fn (subscribe_all fns)) (length fns) = fn
        \<and> hid_set_report_callback_functions_count
            (USBSubscribeHIDSetReportCallback fn (subscribe_all fns)) = length fns + 1)
   \<and> (2 \<le> length fns \<longrightarrow>
        USBSubscribeHIDSetReportCallback fn (subscribe_all fns) = subscribe_all fns)
   \<and> tud_hid_set_report_cb instance report_id report_type buffer bufsize (subscribe_all fns)
       = map (\<lambda>f. (f, (instance, report_id, report_type, buffer, bufsize)))
           (List.map_filter id (take 2 fns))"
proof (intro conjI impI)
  show "registered (subscribe_all fns) = take 2 fns"
    by (rule registered_subscribe_all)
  show "hid_set_report_callback_functions_count (subscribe_all fns) = min 2 (length fns)"
    by (rule count_subscribe_all)
  show "tud_hid_set_report_cb instance report_id report_type buffer bufsize (subscribe_all fns)
       = map (\<lambda>f. (f, (instance, report_id, report_type, buffer, bufsize)))
           (List.map_filter id (take 2 fns))"
    using dispatch_registered [OF router_ok_subscribe_all, of "instance" report_id report_type buffer bufsize fns]
    by (simp add: registered_subscribe_all)
next
  assume less: "length fns < 2"
  then have cnt: "hid_set_report_callback_functions_count (subscribe_all fns) = length fns"
    by (simp add: count_subscribe_all)
  show "registered (USBSubscribeHIDSetReportCallback fn (subscribe_all fns))
          = registered (subscribe_all fns) @ [fn]"
    using less by (simp add: registered_subscribe cnt)
  show "hid_set_report_callback_functions
            (USBSubscribeHIDSetReportCallback fn (subscribe_all fns)) (length fns) = fn"
    using less by (simp add: USBSubscribeHIDSetReportCallback_def cnt)
  show "hid_set_report_callback_functions_count
            (USBSubscribeHIDSetReportCallback fn (subscribe_all fns)) = length fns + 1"
    using less by (simp add: USBSubscribeHIDSetReportCallback_def cnt)
next
  assume "2 \<le> length fns"
  then have "hid_set_report_callback_functions_count (subscribe_all fns) = 2"
    by (simp add: count_subscribe_all)
  then show "USBSubscribeHIDSetReportCallback fn (subscribe_all fns) = subscribe_all fns"
    by (simp add: USBSubscribeHIDSetReportCallback_def)
qed

theorem C9_callback_router_witness:
  "length [Some (10::nat), Some 20] = 2
   \<and> USBSubscribeHIDSetReportCallback (Some 30) (subscribe_all [Some (10::nat), Some 20])
       = subscribe_all [Some 10, Some 20]
   \<and> tud_hid_set_report_cb 0 1 2 (7::nat) 64 (subscribe_all [Some (10::nat), Some 20, Some 30])
       = [(10, (0, 1, 2, 7, 64)), (20, (0, 1, 2, 7, 64))]
   \<and> length [Some (10::nat)] < 2
   \<and> registered (USBSubscribeHIDSetReportCallback (Some 20) (subscribe_all [Some (10::nat)]))
       = [Some 10, Some 20]"
  using C9_callback_router [of "[Some (10::nat), Some 20]" "Some 30" 0 1 2 "7::nat" 64]
    C9_callback_router [of "[Some (10::nat), Some 20, Some 30]" "Some 30" 0 1 2 "7::nat" 64]
    C9_callback_router [of "[Some (10::nat)]" "Some 20" 0 1 2 "7::nat" 64]
  by (auto simp add: List.map_filter_def)


section \<open>String descriptors\<close>

lemma c_at_chars:
  assumes "i \<le> length (c_chars str)"
  shows "c_at str i \<noteq> CHR 0x00 \<longleftrightarrow> i < length (c_chars str)"
    and "i < length (c_chars str) \<Longrightarrow> c_at str i = c_chars str ! i"
proof -
  let ?P = "\<lambda>c. c \<noteq> CHR 0x00"
  have le: "length (c_chars str) \<le> length str"
    by (simp add: c_chars_def length_takeWhile_le)
  show "i < length (c_chars str) \<Longrightarrow> c_at str i = c_chars str ! i"
    using le by (simp add: c_at_def c_chars_def takeWhile_nth)
  show "c_at str i \<noteq> CHR 0x00 \<longleftrightarrow> i < length (c_chars str)"
  proof (cases "i < length (c_chars str)")
    case True
    then have "c_chars str ! i \<in> set (c_chars str)" by simp
    then have "?P (c_chars str ! i)"
      unfolding c_chars_def by (rule set_takeWhileD [THEN conjunct2])
    moreover have "c_at str i = c_chars str ! i"
      using True le by (simp add: c_at_def c_chars_def takeWhile_nth)
    ultimately show ?thesis using True by simp
  next
    case False
    with assms have eq: "i = length (takeWhile ?P str)" by (simp add: c_chars_def)
    have "c_at str i = CHR 0x00"
    proof (cases "i < length str")
      case True
      then have "\<not> ?P (str ! i)"
        unfolding eq by (rule nth_length_takeWhile)
      with True show ?thesis by (simp add: c_at_def)
    next
      case False
      then show ?thesis by (simp add: c_at_def)
    qed
    with False show ?thesis by simp
  qed
qed

lemma str_loop_result:
  assumes "len \<le> length (c_chars str)" and "len \<le> DESC_STR_MAX - 1"
  shows "str_loop str len d =
           (min (DESC_STR_MAX - 1) (length (c_chars str)),
            \<lambda>i. if 1 + len \<le> i \<and> i < 1 + min (DESC_STR_MAX - 1) (length (c_chars str))
                 then of_char (c_chars str ! (i - 1)) else d i)"
  using assms
proof (induction str len d rule: str_loop.induct)
  case (1 str len d)
  let ?n = "min (DESC_STR_MAX - 1) (length (c_chars str))"
  show ?case
  proof (cases "len < DESC_STR_MAX - 1 \<and> c_at str len \<noteq> CHR 0x00")
    case True
    then have lt: "len < length (c_chars str)" and lt': "len < DESC_STR_MAX - 1"
      using c_at_chars(1) [OF "1.prems"(1)] by simp_all
    have ch: "c_at str len = c_chars str ! len"
      using c_at_chars(2) [OF "1.prems"(1) lt] .
    have IH: "str_loop str (len + 1) (d(1 + len := of_char (c_at str len))) =
           (?n, \<lambda>i. if 1 + (len + 1) \<le> i \<and> i < 1 + ?n
                 then of_char (c_chars str ! (i - 1))
                 else (d(1 + len := of_char (c_at str len))) i)"
      using lt lt' by (intro "1.IH" [OF True]) simp_all
    have "str_loop str len d = str_loop str (len + 1) (d(1 + len := of_char (c_at str len)))"
      by (subst str_loop.simps) (simp only: True simp_thms if_True)
    also note IH
    also have "(\<lambda>i. if 1 + (len + 1) \<le> i \<and> i < 1 + ?n
                 then of_char (c_chars str ! (i - 1))
                 else (d(1 + len := of_char (c_at str len))) i)
        = (\<lambda>i. if 1 + len \<le> i \<and> i < 1 + ?n
                 then of_char (c_chars str ! (i - 1)) else d i)"
      using lt lt' by (auto simp add: fun_eq_iff ch)
    finally show ?thesis .
  next
    case False
    then have "len = ?n"
      using c_at_chars(1) [OF "1.prems"(1)] "1.prems" by auto
    moreover have "str_loop str len d = (len, d)"
      by (subst str_loop.simps) (simp only: False simp_thms if_False)
    ultimately show ?thesis by (auto simp add: fun_eq_iff)
  qed
qed

lemma str_loop_payload:
  "map (snd (str_loop str 0 d)) [1..<1 + min (DESC_STR_MAX - 1) (length (c_chars str))]
   = map of_char (take (DESC_STR_MAX - 1) (c_chars str))"
  by (rule nth_equalityI) (simp_all add: str_loop_result del: upt_Suc)


lemma c_at_0_iff: "c_at str 0 = CHR 0x00 \<longleftrightarrow> c_chars str = []"
  using c_at_chars(1) [of 0 str] by auto

lemma string_cb_index0:
  "fst (tud_descriptor_string_cb P attrs 0 langid s) =
     Some ((desc_str s)(1 := 0x0409, 0 := push_bit 8 (TUSB_DESC_STRING P) OR of_nat (2 * 1 + 2)))"
  by (simp add: tud_descriptor_string_cb_def Let_def)

lemma string_cb_out_of_table:
  assumes "usbd_desc_str_count \<le> unat index"
  shows "fst (tud_descriptor_string_cb P attrs index langid s) = None"
    and "desc_str (snd (tud_descriptor_string_cb P attrs index langid s)) = desc_str s"
proof -
  from assms have "index \<noteq> 0"
    by (auto simp add: usbd_desc_str_count_def)
  with assms show "fst (tud_descriptor_string_cb P attrs index langid s) = None"
    and "desc_str (snd (tud_descriptor_string_cb P attrs index langid s)) = desc_str s"
    by (simp_all add: tud_descriptor_string_cb_def Let_def)
qed

lemma string_cb_in_table:
  assumes "index \<noteq> 0" and "unat index < usbd_desc_str_count"
  shows "fst (tud_descriptor_string_cb P attrs index langid s) =
     Some ((snd (str_loop (string_source P attrs s (unat index)) 0 (desc_str s)))
        (0 := push_bit 8 (TUSB_DESC_STRING P)
              OR of_nat (2 * fst (str_loop (string_source P attrs s (unat index)) 0
                                    (desc_str s)) + 2)))"
proof -
  from assms have "unat index \<noteq> 0" by (simp add: unat_0_iff)
  with assms(2) have idx: "unat index = 1 \<or> unat index = 2 \<or> unat index = 3 \<or> unat index = 4"
    by (auto simp add: usbd_desc_str_count_def)
  then show ?thesis
    using assms
    by (cases "usbd_desc_str s")
       (auto simp add: tud_descriptor_string_cb_def Let_def split_beta string_source_def
          usbd_desc_str_entry_def USBD_STR_0_def USBD_STR_MANUF_def USBD_STR_PRODUCT_def
          USBD_STR_SERIAL_def c_at_0_iff)
qed

text \<open>
  Claim C8. The string table has 5 entries. For index 0 the call returns the array with
  the language code 0x0409 in unit 1 and a header unit whose length byte is that of one
  unit (2 * 1 + 2). For every index from 5 on it returns null and leaves the array
  untouched. For every other index it returns the array holding the characters of the
  table's string, cut after \<open>DESC_STR_MAX - 1\<close> = 19 characters when the string is
  longer, in the units from 1 on, and a header unit whose length byte counts exactly
  these units.
\<close>

theorem C8_string_descriptor:
  "usbd_desc_str_count = 5
   \<and> (index = 0 \<longrightarrow>
        map_option (\<lambda>d. (d 0, d 1)) (fst (tud_descriptor_string_cb P attrs index langid s))
          = Some (push_bit 8 (TUSB_DESC_STRING P) OR of_nat (2 * 1 + 2), 0x0409))
   \<and> (usbd_desc_str_count \<le> unat index \<longrightarrow>
        fst (tud_descriptor_string_cb P attrs index langid s) = None
        \<and> desc_str (snd (tud_descriptor_string_cb P attrs index langid s)) = desc_str s)
   \<and> (index \<noteq> 0 \<and> unat index < usbd_desc_str_count \<longrightarrow>
        map_option
          (\<lambda>d. map d [1..<1 + min (DESC_STR_MAX - 1)
                               (length (c_chars (string_source P attrs s (unat index))))])
          (fst (tud_descriptor_string_cb P attrs index langid s))
          = Some (map of_char
                    (take (DESC_STR_MAX - 1) (c_chars (string_source P attrs s (unat index)))))
        \<and> map_option (\<lambda>d. d 0) (fst (tud_descriptor_string_cb P attrs index langid s))
          = Some (push_bit 8 (TUSB_DESC_STRING P)
                  OR of_nat (2 * min (DESC_STR_MAX - 1)
                       (length (c_chars (string_source P attrs s (unat index)))) + 2)))"
proof (intro conjI impI)
  show "usbd_desc_str_count = 5"
    by (simp add: usbd_desc_str_count_def)
next
  assume "index = 0"
  then show "map_option (\<lambda>d. (d 0, d 1)) (fst (tud_descriptor_string_cb P attrs index langid s))
          = Some (push_bit 8 (TUSB_DESC_STRING P) OR of_nat (2 * 1 + 2), 0x0409)"
    by (simp add: string_cb_index0)
next
  assume "usbd_desc_str_count \<le> unat index"
  then show "fst (tud_descriptor_string_cb P attrs index langid s) = None"
    and "desc_str (snd (tud_descriptor_string_cb P attrs index langid s)) = desc_str s"
    by (rule string_cb_out_of_table)+
next
  let ?str = "string_source P attrs s (unat index)"
  let ?n = "min (DESC_STR_MAX - 1) (length (c_chars ?str))"
  assume "index \<noteq> 0 \<and> unat index < usbd_desc_str_count"
  then have r: "fst (tud_descriptor_string_cb P attrs index langid s) =
     Some ((snd (str_loop ?str 0 (desc_str s)))
        (0 := push_bit 8 (TUSB_DESC_STRING P)
              OR of_nat (2 * fst (str_loop ?str 0 (desc_str s)) + 2)))"
    by (intro string_cb_in_table) simp_all
  have len: "fst (str_loop ?str 0 (desc_str s)) = ?n"
    by (simp add: str_loop_result)
  have "map ((snd (str_loop ?str 0 (desc_str s)))
               (0 := push_bit 8 (TUSB_DESC_STRING P) OR of_nat (2 * ?n + 2))) [1..<1 + ?n]
        = map (snd (str_loop ?str 0 (desc_str s))) [1..<1 + ?n]"
    by (rule map_cong) auto
  also have "\<dots> = map of_char (take (DESC_STR_MAX - 1) (c_chars ?str))"
    by (rule str_loop_payload)
  finally show "map_option (\<lambda>d. map d [1..<1 + ?n])
          (fst (tud_descriptor_string_cb P attrs index langid s))
          = Some (map of_char (take (DESC_STR_MAX - 1) (c_chars ?str)))"
    by (simp add: r len)
  show "map_option (\<lambda>d. d 0) (fst (tud_descriptor_string_cb P attrs index langid s))
          = Some (push_bit 8 (TUSB_DESC_STRING P) OR of_nat (2 * ?n + 2))"
    by (simp add: r len)
qed


theorem C8_string_descriptor_witness:
  "map_option (\<lambda>d. (d 0, d 1))
       (fst (tud_descriptor_string_cb platform_sample
          (usb_device_attrs_default None\<lparr>manufacturerName := ''Raspberry Pi Foundation Ltd''\<rparr>)
          0 0x0409 str_state_init))
     = Some (0x0304, 0x0409)
   \<and> usbd_desc_str_count \<le> unat (7 :: byte)
   \<and> fst (tud_descriptor_string_cb platform_sample
          (usb_device_attrs_default None\<lparr>manufacturerName := ''Raspberry Pi Foundation Ltd''\<rparr>)
          7 0x0409 str_state_init) = None
   \<and> (1 :: byte) \<noteq> 0 \<and> unat (1 :: byte) < usbd_desc_str_count
   \<and> map_option (\<lambda>d. map d [1..<20])
       (fst (tud_descriptor_string_cb platform_sample
          (usb_device_attrs_default None\<lparr>manufacturerName := ''Raspberry Pi Foundation Ltd''\<rparr>)
          1 0x0409 str_state_init))
     = Some (map of_char ''Raspberry Pi Founda'')
   \<and> map_option (\<lambda>d. d 0)
       (fst (tud_descriptor_string_cb platform_sample
          (usb_device_attrs_default None\<lparr>manufacturerName := ''Raspberry Pi Foundation Ltd''\<rparr>)
          1 0x0409 str_state_init))
     = Some 0x0328"
proof -
  let ?attrs = "usb_device_attrs_default None\<lparr>manufacturerName := ''Raspberry Pi Foundation Ltd''\<rparr>"
  have src: "c_chars (string_source platform_sample ?attrs str_state_init (unat (1 :: byte)))
      = ''Raspberry Pi Foundation Ltd''"
    by (simp add: string_source_def str_state_init_def c_chars_def usb_device_attrs_default_def)
  have cnt: "usbd_desc_str_count \<le> unat (7 :: byte)" "unat (1 :: byte) < usbd_desc_str_count"
    by (simp_all add: usbd_desc_str_count_def)
  have a: "map_option (\<lambda>d. (d 0, d 1))
       (fst (tud_descriptor_string_cb platform_sample ?attrs 0 0x0409 str_state_init))
     = Some (0x0304, 0x0409)"
    using C8_string_descriptor [of 0 platform_sample ?attrs "0x0409" str_state_init]
    by (simp add: platform_sample_def)
  have b: "fst (tud_descriptor_string_cb platform_sample ?attrs 7 0x0409 str_state_init) = None"
    using C8_string_descriptor [of 7 platform_sample ?attrs "0x0409" str_state_init] cnt
    by blast
  have one: "(1 :: byte) \<noteq> 0" by simp
  let ?src = "string_source platform_sample ?attrs str_state_init (unat (1 :: byte))"
  have c0: "map_option (\<lambda>d. map d [1..<1 + min (DESC_STR_MAX - 1) (length (c_chars ?src))])
       (fst (tud_descriptor_string_cb platform_sample ?attrs 1 0x0409 str_state_init))
     = Some (map of_char (take (DESC_STR_MAX - 1) (c_chars ?src)))
     \<and> map_option (\<lambda>d. d 0)
       (fst (tud_descriptor_string_cb platform_sample ?attrs 1 0x0409 str_state_init))
     = Some (push_bit 8 (TUSB_DESC_STRING platform_sample)
             OR of_nat (2 * min (DESC_STR_MAX - 1) (length (c_chars ?src)) + 2))"
    using C8_string_descriptor [of 1 platform_sample ?attrs "0x0409" str_state_init] cnt one
    by blast
  have c: "map_option (\<lambda>d. map d [1..<20])
       (fst (tud_descriptor_string_cb platform_sample ?attrs 1 0x0409 str_state_init))
     = Some (map of_char ''Raspberry Pi Founda'')
     \<and> map_option (\<lambda>d. d 0)
       (fst (tud_descriptor_string_cb platform_sample ?attrs 1 0x0409 str_state_init))
     = Some 0x0328"
  proof -
    have n: "1 + min (DESC_STR_MAX - 1) (length (c_chars ?src)) = 20"
      unfolding src by (simp add: DESC_STR_MAX_def)
    have tk: "take (DESC_STR_MAX - 1) (c_chars ?src) = ''Raspberry Pi Founda''"
      unfolding src by (simp add: DESC_STR_MAX_def)
    have hdr: "push_bit 8 (TUSB_DESC_STRING platform_sample)
             OR of_nat (2 * min (DESC_STR_MAX - 1) (length (c_chars ?src)) + 2)
          = (0x0328 :: 16 word)"
      unfolding src by (simp add: DESC_STR_MAX_def platform_sample_def)
    from c0 show ?thesis
      unfolding n tk hdr .
  qed
  from a b c cnt one show ?thesis by simp
qed

end
